theory Spec2Isabelle
  imports Complex_Main
begin

section \<open>stl-repair: the command-line script \<open>src/stl_repair/cli.py\<close>\<close>

text \<open>
  The script drives a host application (Blender, through its \<open>bpy\<close> module), the
  operating system and the network. None of the three is code of the script: the model
  takes them as an environment \<open>env\<close> of functions over a host state, and follows the
  script's own control flow: which host calls it makes, in which order, which exceptions
  it catches and which it lets through.
\<close>

subsection \<open>Python strings\<close>

definition startswith :: "string \<Rightarrow> string \<Rightarrow> bool" where
  \<comment> \<open>\<open>s.startswith(p)\<close>\<close>
  "startswith p s = (take (length p) s = p)"

definition endswith :: "string \<Rightarrow> string \<Rightarrow> bool" where
  \<comment> \<open>\<open>s.endswith(p)\<close>\<close>
  "endswith p s = (length p \<le> length s \<and> drop (length s - length p) s = p)"

function str_split_acc :: "string \<Rightarrow> string \<Rightarrow> string \<Rightarrow> string list" where
  "str_split_acc sep cur rest =
     (if sep \<noteq> [] \<and> startswith sep rest
      then cur # str_split_acc sep [] (drop (length sep) rest)
      else (case rest of
              [] \<Rightarrow> [cur]
            | c # cs \<Rightarrow> str_split_acc sep (cur @ [c]) cs))"
  by pat_completeness auto
termination
proof (relation "measure (\<lambda>(sep, cur, rest). length rest)", goal_cases)
  case 1
  show ?case by simp
next
  case (2 sep cur rest)
  then have "rest \<noteq> []" and "0 < length sep"
    by (auto simp: startswith_def)
  then show ?case by simp
next
  case (3 sep cur rest c cs)
  then show ?case by simp
qed

declare str_split_acc.simps [simp del]

definition str_split :: "string \<Rightarrow> string \<Rightarrow> string list" where
  \<comment> \<open>\<open>s.split(sep)\<close> for a non-empty separator: the pieces between the occurrences of
      \<open>sep\<close>, found from the left.\<close>
  "str_split sep s = str_split_acc sep [] s"

definition rsplit1 :: "char \<Rightarrow> string \<Rightarrow> string list" where
  \<comment> \<open>\<open>s.rsplit(c, 1)\<close>: one split at the last \<open>c\<close>; the whole string when there is none.\<close>
  "rsplit1 c s =
     (if c \<in> set s
      then [rev (tl (dropWhile (\<lambda>x. x \<noteq> c) (rev s))), rev (takeWhile (\<lambda>x. x \<noteq> c) (rev s))]
      else [s])"

definition rfind :: "char \<Rightarrow> string \<Rightarrow> int" where
  \<comment> \<open>\<open>s.rfind(c)\<close>: the index of the last \<open>c\<close>, or \<open>-1\<close>.\<close>
  "rfind c s =
     (if c \<in> set s then int (length s) - 1 - int (length (takeWhile (\<lambda>x. x \<noteq> c) (rev s)))
      else - 1)"

definition lower_char :: "char \<Rightarrow> char" where
  "lower_char c =
     (if (65::nat) \<le> of_char c \<and> of_char c \<le> (90::nat)
      then char_of (of_char c + (32::nat)) else c)"

definition lower :: "string \<Rightarrow> string" where
  \<comment> \<open>\<open>s.lower()\<close> on the ASCII letters.\<close>
  "lower s = map lower_char s"

definition join_with :: "string \<Rightarrow> string list \<Rightarrow> string" where
  \<comment> \<open>\<open>sep.join(xs)\<close>\<close>
  "join_with sep xs = (case xs of [] \<Rightarrow> [] | y # ys \<Rightarrow> foldl (\<lambda>acc z. acc @ sep @ z) y ys)"

subsection \<open>\<open>os.path\<close> on strings (POSIX)\<close>

definition os_path_join :: "string \<Rightarrow> string \<Rightarrow> string" where
  "os_path_join a b =
     (if startswith ''/'' b then b
      else if a = [] \<or> endswith ''/'' a then a @ b
      else a @ ''/'' @ b)"

definition rstrip_slash :: "string \<Rightarrow> string" where
  "rstrip_slash s = rev (dropWhile (\<lambda>x. x = CHR ''/'') (rev s))"

definition os_path_dirname :: "string \<Rightarrow> string" where
  "os_path_dirname p =
     (let i = nat (rfind CHR ''/'' p + 1); head = take i p
      in if head \<noteq> [] \<and> head \<noteq> replicate (length head) CHR ''/''
         then rstrip_slash head else head)"

subsection \<open>\<open>pathlib.Path\<close> (pure POSIX paths)\<close>

text \<open>
  A path is kept as \<open>pathlib\<close> keeps it: whether it starts at the root, and its
  components. \<open>argparse\<close> builds the two paths of the command line with \<open>type=Path\<close>.
\<close>

record path =
  absolute :: bool
  parts :: "string list"

datatype exn =
    RuntimeError string
  | IndexError string
  | ValueError string
  | AttributeError string
  | ReferenceError string
  | HostError string

fun str_exn :: "exn \<Rightarrow> string" where
  \<comment> \<open>\<open>str(e)\<close>, as the log messages format it\<close>
  "str_exn (RuntimeError m) = m"
| "str_exn (IndexError m) = m"
| "str_exn (ValueError m) = m"
| "str_exn (AttributeError m) = m"
| "str_exn (ReferenceError m) = m"
| "str_exn (HostError m) = m"

definition path_name :: "path \<Rightarrow> string" where
  \<comment> \<open>\<open>p.name\<close>: the last component, empty for \<open>.\<close> and \<open>/\<close>\<close>
  "path_name p = (case parts p of [] \<Rightarrow> [] | _ \<Rightarrow> last (parts p))"

definition has_ext :: "string \<Rightarrow> bool" where
  \<comment> \<open>\<open>0 < i < len(name) - 1\<close> for \<open>i = name.rfind('.')\<close>\<close>
  "has_ext n = (0 < rfind CHR ''.'' n \<and> rfind CHR ''.'' n < int (length n) - 1)"

definition path_suffix :: "path \<Rightarrow> string" where
  \<comment> \<open>\<open>p.suffix\<close>\<close>
  "path_suffix p =
     (let n = path_name p in if has_ext n then drop (nat (rfind CHR ''.'' n)) n else [])"

definition path_stem :: "path \<Rightarrow> string" where
  \<comment> \<open>\<open>p.stem\<close>\<close>
  "path_stem p =
     (let n = path_name p in if has_ext n then take (nat (rfind CHR ''.'' n)) n else n)"

definition path_parent :: "path \<Rightarrow> path" where
  \<comment> \<open>\<open>p.parent\<close>; the root and \<open>.\<close> are their own parents\<close>
  "path_parent p = p\<lparr>parts := butlast (parts p)\<rparr>"

definition with_name :: "path \<Rightarrow> string \<Rightarrow> exn + path" where
  \<comment> \<open>\<open>p.with_name(n)\<close>\<close>
  "with_name p n =
     (if path_name p = [] then Inl (ValueError ''path has an empty name'')
      else if n = [] \<or> CHR ''/'' \<in> set n \<or> n = ''.'' then Inl (ValueError ''Invalid name'')
      else Inr (p\<lparr>parts := butlast (parts p) @ [n]\<rparr>))"

definition with_stem :: "path \<Rightarrow> string \<Rightarrow> exn + path" where
  \<comment> \<open>\<open>p.with_stem(s)\<close> is \<open>p.with_name(s + p.suffix)\<close>\<close>
  "with_stem p s = with_name p (s @ path_suffix p)"

definition with_suffix :: "path \<Rightarrow> string \<Rightarrow> exn + path" where
  \<comment> \<open>\<open>p.with_suffix(sfx)\<close>\<close>
  "with_suffix p sfx =
     (if CHR ''/'' \<in> set sfx \<or> (sfx \<noteq> [] \<and> \<not> startswith ''.'' sfx) \<or> sfx = ''.''
      then Inl (ValueError ''Invalid suffix'')
      else if path_name p = [] then Inl (ValueError ''path has an empty name'')
      else Inr (p\<lparr>parts := butlast (parts p) @ [path_stem p @ sfx]\<rparr>))"

definition parse_path :: "string \<Rightarrow> path" where
  \<comment> \<open>\<open>Path(s)\<close>: empty and \<open>.\<close> components are dropped\<close>
  "parse_path s =
     \<lparr>absolute = startswith ''/'' s,
      parts = filter (\<lambda>c. c \<noteq> [] \<and> c \<noteq> ''.'') (str_split ''/'' s)\<rparr>"

definition path_join :: "path \<Rightarrow> string \<Rightarrow> path" where
  \<comment> \<open>\<open>p / s\<close>: an absolute right operand replaces the left one\<close>
  "path_join p s =
     (let q = parse_path s
      in if absolute q then q else \<lparr>absolute = absolute p, parts = parts p @ parts q\<rparr>)"

definition path_str :: "path \<Rightarrow> string" where
  \<comment> \<open>\<open>str(p)\<close>\<close>
  "path_str p =
     (if absolute p then ''/'' @ join_with ''/'' (parts p)
      else if parts p = [] then ''.'' else join_with ''/'' (parts p))"

subsection \<open>The host application, the operating system and the network\<close>

text \<open>
  The scene of the host holds objects behind references: an operator may create, change
  or remove any of them, and the script keeps a reference across operator calls. The
  file system answers \<open>exists\<close> and \<open>isdir\<close> for a path string.
\<close>

datatype kwarg = S string | B bool

type_synonym kwargs = "(string \<times> kwarg) list"

type_synonym obj_ref = nat

record object =
  name :: string
  location :: "real list"

datatype node = File string | Dir

record host =
  objects :: "obj_ref \<Rightarrow> object option"
  active :: "obj_ref option"
  selected_objects :: "obj_ref list"
  fs :: "string \<Rightarrow> node option"

text \<open>
  A host call runs on the host state; it completes (\<open>None\<close>) or raises
  (\<open>Some e\<close>, an instance of Python's \<open>Exception\<close>), and leaves a host state either way.
\<close>

type_synonym operator = "kwargs \<Rightarrow> host \<Rightarrow> exn option \<times> host"

record env =
  ops :: "host \<Rightarrow> string \<Rightarrow> (string \<Rightarrow> operator option) option"
  user_resource :: "host \<Rightarrow> (exn + string) \<times> host"
  addon_utils_check :: "string \<Rightarrow> host \<Rightarrow> (exn + bool list) \<times> host"
  mkdtemp :: "host \<Rightarrow> (exn + string) \<times> host"
  rmtree :: "string \<Rightarrow> host \<Rightarrow> exn option \<times> host"
  urlretrieve :: "string \<Rightarrow> string \<Rightarrow> host \<Rightarrow> exn option \<times> host"
  zip_open :: "string \<Rightarrow> host \<Rightarrow> (exn + (string \<times> string) list) \<times> host"
  makedirs :: "string \<Rightarrow> host \<Rightarrow> exn option \<times> host"
  write_file :: "string \<Rightarrow> string \<Rightarrow> host \<Rightarrow> exn option \<times> host"

text \<open>
  \<open>ops env h m\<close> is \<open>getattr(bpy.ops, m, None)\<close> in the host state \<open>h\<close>, and
  \<open>ops_mod n\<close> the operator \<open>getattr(ops_mod, n)\<close> when \<open>hasattr(ops_mod, n)\<close>.
  \<open>user_resource\<close> is \<open>bpy.utils.user_resource("SCRIPTS", path="addons", create=True)\<close>,
  \<open>addon_utils_check\<close> is \<open>import addon_utils\<close> followed by \<open>addon_utils.check\<close>,
  \<open>mkdtemp\<close> and \<open>rmtree\<close> enter and leave \<open>tempfile.TemporaryDirectory()\<close>,
  \<open>zip_open\<close> reads the members of an archive (name and content),
  \<open>write_file\<close> is \<open>open(path, "wb")\<close> followed by \<open>write\<close>.
\<close>

text \<open>
  What the model takes for granted about the outside:
  \<^item> what a host call raises is an instance of \<open>Exception\<close>, the class the script's handlers
    catch (\<open>KeyboardInterrupt\<close> and \<open>SystemExit\<close> are not modelled);
  \<^item> assigning to \<open>obj.name\<close> or \<open>obj.location[i]\<close> stores the value as any Python
    attribute does; whatever else the host does to an object it does in an operator;
  \<^item> \<open>pathlib\<close> and \<open>os.path\<close> behave as in Python 3.9 to 3.12 on POSIX;
  \<^item> a call of the logger never raises.
\<close>

subsection \<open>What the script does to the outside, in order\<close>

datatype level = DEBUG | INFO | WARNING | ERROR

datatype outcome = Missing | Raised exn | Completed

datatype event =
    Log level string
  | Invoke string kwargs outcome
  | Fetch string

text \<open>
  \<open>events\<close> is the history of the run: each record handed to the logger, each request
  to invoke an operator with how it ended, each download started. Only the script
  appends to it, and nothing reads it.
\<close>

record world =
  host :: host
  events :: "event list"

type_synonym 'a io = "world \<Rightarrow> (exn + 'a) \<times> world"

definition ret :: "'a \<Rightarrow> 'a io" where
  "ret x w = (Inr x, w)"

definition raise :: "exn \<Rightarrow> 'a io" where
  "raise e w = (Inl e, w)"

definition then_do :: "'a io \<Rightarrow> ('a \<Rightarrow> 'b io) \<Rightarrow> 'b io" where
  \<comment> \<open>one statement after another: an exception skips the rest\<close>
  "then_do m k w = (case m w of (Inl e, w') \<Rightarrow> (Inl e, w') | (Inr x, w') \<Rightarrow> k x w')"

definition try_except :: "'a io \<Rightarrow> (exn \<Rightarrow> 'a io) \<Rightarrow> 'a io" where
  \<comment> \<open>\<open>try: m except Exception as e: h e\<close>\<close>
  "try_except m h w = (case m w of (Inl e, w') \<Rightarrow> h e w' | (Inr x, w') \<Rightarrow> (Inr x, w'))"

definition emit :: "event list \<Rightarrow> world \<Rightarrow> world" where
  "emit es w = w\<lparr>events := events w @ es\<rparr>"

definition logger :: "level \<Rightarrow> string \<Rightarrow> unit io" where
  "logger l msg w = (Inr (), emit [Log l msg] w)"

definition os_call :: "(host \<Rightarrow> exn option \<times> host) \<Rightarrow> unit io" where
  \<comment> \<open>a call into the outside that returns nothing\<close>
  "os_call f w =
     (case f (host w) of
        (None, h') \<Rightarrow> (Inr (), w\<lparr>host := h'\<rparr>)
      | (Some e, h') \<Rightarrow> (Inl e, w\<lparr>host := h'\<rparr>))"

definition os_get :: "(host \<Rightarrow> (exn + 'a) \<times> host) \<Rightarrow> 'a io" where
  \<comment> \<open>a call into the outside that returns a value\<close>
  "os_get f w = (case f (host w) of (r, h') \<Rightarrow> (r, w\<lparr>host := h'\<rparr>))"

fun for_each :: "('a \<Rightarrow> unit io) \<Rightarrow> 'a list \<Rightarrow> unit io" where
  "for_each body [] = ret ()"
| "for_each body (x # xs) = then_do (body x) (\<lambda>_. for_each body xs)"

subsection \<open>Object attributes\<close>

definition get_name :: "obj_ref \<Rightarrow> string io" where
  \<comment> \<open>\<open>obj.name\<close>; a reference whose object the host has removed raises\<close>
  "get_name obj w =
     (case objects (host w) obj of
        None \<Rightarrow> (Inl (ReferenceError ''object has been removed''), w)
      | Some ob \<Rightarrow> (Inr (name ob), w))"

definition set_name :: "obj_ref \<Rightarrow> string \<Rightarrow> unit io" where
  \<comment> \<open>\<open>obj.name = v\<close>\<close>
  "set_name obj v w =
     (case objects (host w) obj of
        None \<Rightarrow> (Inl (ReferenceError ''object has been removed''), w)
      | Some ob \<Rightarrow>
          (Inr (), w\<lparr>host := (host w)\<lparr>objects := (objects (host w))(obj \<mapsto> ob\<lparr>name := v\<rparr>)\<rparr>\<rparr>))"

definition set_location :: "obj_ref \<Rightarrow> nat \<Rightarrow> real \<Rightarrow> unit io" where
  \<comment> \<open>\<open>obj.location[i] = v\<close>\<close>
  "set_location obj i v w =
     (case objects (host w) obj of
        None \<Rightarrow> (Inl (ReferenceError ''object has been removed''), w)
      | Some ob \<Rightarrow>
          if i < length (location ob)
          then (Inr (), w\<lparr>host := (host w)\<lparr>objects :=
                  (objects (host w))(obj \<mapsto> ob\<lparr>location := (location ob)[i := v]\<rparr>)\<rparr>\<rparr>)
          else (Inl (IndexError ''index out of range''), w))"

definition active_or_selected :: "obj_ref io" where
  \<comment> \<open>\<open>bpy.context.view_layer.objects.active or bpy.context.selected_objects[0]\<close>\<close>
  "active_or_selected w =
     (case active (host w) of
        Some obj \<Rightarrow> (Inr obj, w)
      | None \<Rightarrow>
          (case selected_objects (host w) of
             [] \<Rightarrow> (Inl (IndexError ''list index out of range''), w)
           | obj # _ \<Rightarrow> (Inr obj, w)))"

definition set_active :: "obj_ref \<Rightarrow> unit io" where
  \<comment> \<open>\<open>bpy.context.view_layer.objects.active = obj\<close>\<close>
  "set_active obj w = (Inr (), w\<lparr>host := (host w)\<lparr>active := Some obj\<rparr>\<rparr>)"

subsection \<open>Operators\<close>

definition lookup_op :: "env \<Rightarrow> host \<Rightarrow> string \<Rightarrow> string \<Rightarrow> operator option" where
  "lookup_op bpy h modname opname =
     (case ops bpy h modname of None \<Rightarrow> None | Some ops_mod \<Rightarrow> ops_mod opname)"

definition call_op :: "env \<Rightarrow> string \<Rightarrow> string \<Rightarrow> kwargs \<Rightarrow> unit io" where
  \<comment> \<open>\<open>bpy.ops.<modname>.<opname>(**kw)\<close>, written out in the script\<close>
  "call_op bpy modname opname kw w =
     (let op_path = modname @ ''.'' @ opname in
      case lookup_op bpy (host w) modname opname of
        None \<Rightarrow> (Inl (AttributeError op_path), emit [Invoke op_path kw Missing] w)
      | Some operator \<Rightarrow>
          (case operator kw (host w) of
             (None, h') \<Rightarrow> (Inr (), emit [Invoke op_path kw Completed] (w\<lparr>host := h'\<rparr>))
           | (Some e, h') \<Rightarrow> (Inl e, emit [Invoke op_path kw (Raised e)] (w\<lparr>host := h'\<rparr>))))"

definition safe_call :: "env \<Rightarrow> string \<Rightarrow> kwargs \<Rightarrow> bool io" where
  "safe_call bpy op_path kw w =
     (case rsplit1 CHR ''.'' op_path of
        [modname, opname] \<Rightarrow>
          (case lookup_op bpy (host w) modname opname of
             None \<Rightarrow>
               (Inr False,
                emit [Invoke op_path kw Missing,
                      Log DEBUG (''Operator missing: bpy.ops.'' @ op_path)] w)
           | Some operator \<Rightarrow>
               (case operator kw (host w) of
                  (None, h') \<Rightarrow> (Inr True, emit [Invoke op_path kw Completed] (w\<lparr>host := h'\<rparr>))
                | (Some e, h') \<Rightarrow>
                    (Inr False,
                     emit [Invoke op_path kw (Raised e),
                           Log DEBUG (''Operator '' @ op_path @ '' failed: '' @ str_exn e)]
                       (w\<lparr>host := h'\<rparr>))))
      | _ \<Rightarrow> (Inl (ValueError ''not enough values to unpack (expected 2, got 1)''), w))"

definition basic_mesh_repair :: "env \<Rightarrow> obj_ref \<Rightarrow> unit io" where
  "basic_mesh_repair bpy obj =
     then_do (logger INFO ''Applying basic mesh repair'') (\<lambda>_.
     then_do (set_active obj) (\<lambda>_.
     then_do (safe_call bpy ''object.mode_set'' [(''mode'', S ''EDIT'')]) (\<lambda>_.
     then_do (safe_call bpy ''mesh.select_all'' [(''action'', S ''SELECT'')]) (\<lambda>_.
     then_do (safe_call bpy ''mesh.remove_doubles'' []) (\<lambda>merged.
     then_do (if \<not> merged then safe_call bpy ''mesh.merge_by_distance'' [] else ret merged) (\<lambda>_.
     then_do (safe_call bpy ''mesh.fill_holes'' []) (\<lambda>_.
     then_do (safe_call bpy ''mesh.normals_make_consistent'' [(''inside'', B False)]) (\<lambda>_.
     then_do (safe_call bpy ''object.mode_set'' [(''mode'', S ''OBJECT'')]) (\<lambda>_.
     ret ())))))))))"

subsection \<open>\<open>repair_stl\<close>\<close>

text \<open>
  The body of \<open>repair_stl\<close> in its parts: lines 112 to 125 reset the scene, import the
  file and centre the object; lines 127 and 128 append the suffix to its name; lines 130
  to 139 repair it; lines 141 to 157 export it.
\<close>

definition repair_stl_load :: "env \<Rightarrow> path \<Rightarrow> obj_ref io" where
  \<comment> \<open>lines 112 to 125\<close>
  "repair_stl_load bpy input_path =
     then_do (safe_call bpy ''object.select_all'' [(''action'', S ''SELECT'')]) (\<lambda>_.
     then_do (safe_call bpy ''object.delete''
                [(''use_global'', B False), (''confirm'', B False)]) (\<lambda>_.
     then_do (safe_call bpy ''wm.stl_import''
                [(''filepath'', S (path_str input_path)),
                 (''directory'', S (path_str (path_parent input_path)))]) (\<lambda>imported.
     if \<not> imported then raise (RuntimeError ''Failed to import STL'')
     else
     then_do active_or_selected (\<lambda>obj.
     then_do (safe_call bpy ''object.origin_set''
                [(''type'', S ''ORIGIN_CENTER_OF_VOLUME''), (''center'', S ''MEDIAN'')]) (\<lambda>_.
     then_do (for_each (\<lambda>i. set_location obj i 0) [0, 1, 2]) (\<lambda>_.
     ret obj))))))"

definition repair_stl_import :: "env \<Rightarrow> path \<Rightarrow> string \<Rightarrow> obj_ref io" where
  \<comment> \<open>lines 112 to 128\<close>
  "repair_stl_import bpy input_path suffix =
     then_do (repair_stl_load bpy input_path) (\<lambda>obj.
     then_do (if suffix \<noteq> []
              then then_do (get_name obj) (\<lambda>n. set_name obj (n @ suffix))
              else ret ()) (\<lambda>_.
     ret obj))"

definition repair_stl_repair :: "env \<Rightarrow> bool \<Rightarrow> obj_ref \<Rightarrow> unit io" where
  "repair_stl_repair bpy use_print_addon obj =
     (if use_print_addon
      then try_except
             (then_do (logger INFO ''Running 3D Print add-on checks'') (\<lambda>_.
              then_do (safe_call bpy ''mesh.print3d_check_all'' []) (\<lambda>_.
              then_do (safe_call bpy ''mesh.print3d_clean_non_manifold'' []) (\<lambda>_.
              ret ()))))
             (\<lambda>e. then_do (logger WARNING (''3D print utilities failed: '' @ str_exn e)) (\<lambda>_.
                  basic_mesh_repair bpy obj))
      else basic_mesh_repair bpy obj)"

definition repair_stl_export :: "env \<Rightarrow> path \<Rightarrow> obj_ref \<Rightarrow> path io" where
  "repair_stl_export bpy output_path obj =
     (let export_dir = path_parent output_path;
          export_name = path_stem output_path
      in
      then_do (get_name obj) (\<lambda>old_name.
      then_do (set_name obj export_name) (\<lambda>_.
      then_do (safe_call bpy ''wm.stl_export''
                 [(''filepath'', S (path_str export_dir @ ''/'')),
                  (''display_type'', S ''DEFAULT''),
                  (''use_batch'', B True),
                  (''export_selected_objects'', B True)]) (\<lambda>exported.
      if \<not> exported then raise (RuntimeError ''Failed to export STL'')
      else
      then_do (get_name obj) (\<lambda>exported_name.
      let final_file = path_join export_dir (exported_name @ ''.stl'') in
      then_do (set_name obj old_name) (\<lambda>_.
      then_do (logger INFO (''Wrote '' @ path_str final_file)) (\<lambda>_.
      ret final_file)))))))"

definition repair_stl_prepare :: "env \<Rightarrow> path \<Rightarrow> bool \<Rightarrow> string \<Rightarrow> obj_ref io" where
  \<comment> \<open>lines 112 to 139: everything before the export\<close>
  "repair_stl_prepare bpy input_path use_print_addon suffix =
     then_do (repair_stl_import bpy input_path suffix) (\<lambda>obj.
     then_do (repair_stl_repair bpy use_print_addon obj) (\<lambda>_.
     ret obj))"

definition repair_stl :: "env \<Rightarrow> path \<Rightarrow> path \<Rightarrow> bool \<Rightarrow> string \<Rightarrow> path io" where
  "repair_stl bpy input_path output_path use_print_addon suffix =
     then_do (repair_stl_prepare bpy input_path use_print_addon suffix) (\<lambda>obj.
     repair_stl_export bpy output_path obj)"

subsection \<open>The add-on\<close>

definition addon_url :: string where
  "addon_url = ''https://github.com/blender/blender-addons/archive/refs/heads/main.zip''"

definition extract_member :: "env \<Rightarrow> string \<Rightarrow> string \<times> string \<Rightarrow> unit io" where
  \<comment> \<open>the body of the loop over \<open>zf.namelist()\<close>, lines 41 to 49\<close>
  "extract_member bpy user_addon_dir member =
     (case member of (m, content) \<Rightarrow>
        if startswith ''blender-addons-main/object_print3d_utils/'' m
        then (let rel = last (str_split ''blender-addons-main/'' m);
                  target_path = os_path_join user_addon_dir rel
              in if endswith ''/'' m
                 then os_call (makedirs bpy target_path)
                 else then_do (os_call (makedirs bpy (os_path_dirname target_path))) (\<lambda>_.
                      os_call (write_file bpy target_path content)))
        else ret ())"

definition cleanup :: "env \<Rightarrow> string \<Rightarrow> 'a io \<Rightarrow> 'a io" where
  \<comment> \<open>leaving \<open>with tempfile.TemporaryDirectory() as td\<close>: the directory is removed, also
      when the body raised\<close>
  "cleanup bpy td body w =
     (case body w of
        (r, w') \<Rightarrow>
          (case os_call (rmtree bpy td) w' of
             (Inl e, w'') \<Rightarrow> (Inl e, w'')
           | (Inr _, w'') \<Rightarrow> (r, w'')))"

definition with_tempdir :: "env \<Rightarrow> (string \<Rightarrow> 'a io) \<Rightarrow> 'a io" where
  \<comment> \<open>\<open>with tempfile.TemporaryDirectory() as td: body\<close>\<close>
  "with_tempdir bpy body =
     then_do (os_get (mkdtemp bpy)) (\<lambda>td. cleanup bpy td (body td))"

definition fetch :: "env \<Rightarrow> string \<Rightarrow> string \<Rightarrow> unit io" where
  \<comment> \<open>\<open>urllib.request.urlretrieve(url, zip_path)\<close>\<close>
  "fetch bpy url zip_path w = os_call (urlretrieve bpy url zip_path) (emit [Fetch url] w)"

definition download_addon :: "env \<Rightarrow> string \<Rightarrow> string \<Rightarrow> unit io" where
  \<comment> \<open>lines 32 to 50\<close>
  "download_addon bpy user_addon_dir addon_folder =
     then_do (logger INFO ''Downloading object_print3d_utils (blender-addons main)...'') (\<lambda>_.
     then_do (with_tempdir bpy (\<lambda>td.
                let zip_path = os_path_join td ''addons.zip'' in
                then_do (fetch bpy addon_url zip_path) (\<lambda>_.
                then_do (os_get (zip_open bpy zip_path)) (\<lambda>members.
                for_each (extract_member bpy user_addon_dir) members)))) (\<lambda>_.
     logger INFO (''Add-on extracted to '' @ addon_folder)))"

definition os_path_isdir :: "string \<Rightarrow> bool io" where
  "os_path_isdir p w = (Inr (fs (host w) p = Some Dir), w)"

definition attempt_install_print_addon :: "env \<Rightarrow> bool io" where
  "attempt_install_print_addon bpy =
     try_except
       (then_do (os_get (user_resource bpy)) (\<lambda>user_addon_dir.
        let addon_folder = os_path_join user_addon_dir ''object_print3d_utils'' in
        then_do (os_path_isdir addon_folder) (\<lambda>present.
        then_do (if \<not> present then download_addon bpy user_addon_dir addon_folder
                 else ret ()) (\<lambda>_.
        then_do (call_op bpy ''preferences'' ''addon_enable''
                   [(''module'', S ''object_print3d_utils'')]) (\<lambda>_.
        then_do (logger INFO ''Enabled object_print3d_utils after install'') (\<lambda>_.
        ret True))))))
       (\<lambda>e. then_do (logger WARNING (''Automatic add-on install failed: '' @ str_exn e)) (\<lambda>_.
            ret False))"

definition enable_present_addon :: "env \<Rightarrow> bool io" where
  \<comment> \<open>lines 63 to 74, up to the call of \<open>attempt_install_print_addon\<close>: \<open>True\<close> is the
      \<open>return True\<close> of line 71, \<open>False\<close> is reaching line 75\<close>
  "enable_present_addon bpy =
     then_do (os_get (addon_utils_check bpy ''object_print3d_utils'')) (\<lambda>res.
     then_do (if list_ex (\<lambda>b. b) res
              then try_except
                     (then_do (call_op bpy ''preferences'' ''addon_enable''
                                 [(''module'', S ''object_print3d_utils'')]) (\<lambda>_.
                      then_do (logger DEBUG ''3D Print add-on enabled'') (\<lambda>_.
                      ret True)))
                     (\<lambda>e. then_do (logger DEBUG (''Enable failure: '' @ str_exn e)) (\<lambda>_.
                          ret False))
              else ret False) (\<lambda>enabled.
     if enabled then ret True
     else then_do (logger INFO ''3D Print add-on not present; attempting install'') (\<lambda>_.
          ret False)))"

definition enable_print_addon :: "env \<Rightarrow> bool io" where
  "enable_print_addon bpy =
     try_except
       (then_do (enable_present_addon bpy) (\<lambda>enabled.
        if enabled then ret True else attempt_install_print_addon bpy))
       (\<lambda>e. then_do (logger DEBUG (''Add-on check failed: '' @ str_exn e)) (\<lambda>_.
            ret False))"

subsection \<open>\<open>main\<close>\<close>

text \<open>
  \<open>parse_args\<close> is \<open>argparse\<close>: the model starts from the namespace it returns.
\<close>

record args =
  input :: path
  "output" :: "path option"
  suffix :: string
  verbose :: int
  no_log_file :: bool
  force_basic :: bool

datatype exit = Returned | SysExit nat | Uncaught exn

fun exit_code :: "exit \<Rightarrow> nat" where
  \<comment> \<open>the status of the process: an exception nobody catches ends it with 1\<close>
  "exit_code Returned = 0"
| "exit_code (SysExit n) = n"
| "exit_code (Uncaught e) = 1"

definition path_exists :: "host \<Rightarrow> path \<Rightarrow> bool" where
  \<comment> \<open>\<open>p.exists()\<close>\<close>
  "path_exists h p = (fs h (path_str p) \<noteq> None)"

definition chosen_output :: "args \<Rightarrow> exn + path" where
  \<comment> \<open>lines 195 to 197\<close>
  "chosen_output a =
     (case output a of
        None \<Rightarrow> with_stem (input a) (path_stem (input a) @ suffix a)
      | Some p \<Rightarrow> Inr p)"

definition main_output :: "args \<Rightarrow> exn + path" where
  \<comment> \<open>lines 195 to 199\<close>
  "main_output a =
     (case chosen_output a of
        Inl e \<Rightarrow> Inl e
      | Inr p \<Rightarrow> if lower (path_suffix p) \<noteq> ''.stl'' then with_suffix p ''.stl'' else Inr p)"

definition main_suffix :: "args \<Rightarrow> string" where
  \<comment> \<open>\<open>"" if args.output else args.suffix\<close>: a \<open>Path\<close> is always true\<close>
  "main_suffix a = (if output a \<noteq> None then [] else suffix a)"

definition main_addon :: "env \<Rightarrow> args \<Rightarrow> bool io" where
  \<comment> \<open>lines 201 to 206\<close>
  "main_addon bpy a =
     then_do (logger INFO (''Repairing '' @ path_str (input a))) (\<lambda>_.
     if \<not> force_basic a
     then then_do (enable_print_addon bpy) (\<lambda>use_addon.
          if \<not> use_addon
          then then_do (logger INFO ''Proceeding without 3D Print add-on'') (\<lambda>_. ret use_addon)
          else ret use_addon)
     else ret False)"

definition main_repair :: "env \<Rightarrow> args \<Rightarrow> path \<Rightarrow> bool \<Rightarrow> world \<Rightarrow> exit \<times> world" where
  \<comment> \<open>lines 208 to 215\<close>
  "main_repair bpy a out use_addon w =
     (case repair_stl bpy (input a) out use_addon (main_suffix a) w of
        (Inr final_file, w') \<Rightarrow>
          (Returned, emit [Log INFO (''Repaired file saved: '' @ path_str final_file)] w')
      | (Inl e, w') \<Rightarrow>
          (SysExit 2, emit [Log ERROR (''Repair failed: '' @ str_exn e)] w'))"

definition main :: "env \<Rightarrow> args \<Rightarrow> world \<Rightarrow> exit \<times> world" where
  "main bpy a w =
     (if \<not> path_exists (host w) (input a)
      then (SysExit 1,
            emit [Log ERROR (''Input file does not exist: '' @ path_str (input a))] w)
      else
        case main_output a of
          Inl e \<Rightarrow> (Uncaught e, w)
        | Inr out \<Rightarrow>
            (case main_addon bpy a w of
               (Inl e, w') \<Rightarrow> (Uncaught e, w')
             | (Inr use_addon, w') \<Rightarrow> main_repair bpy a out use_addon w'))"

definition cli :: "exn + env \<Rightarrow> args \<Rightarrow> world \<Rightarrow> exit \<times> world" where
  \<comment> \<open>the module: the guarded \<open>import bpy\<close> of lines 16 to 23, then \<open>main()\<close>\<close>
  "cli import_bpy a w =
     (case import_bpy of
        Inl e \<Rightarrow>
          (SysExit 1,
           emit [Log ERROR (''ERROR: This script must be executed inside Blender's Python. (''
                            @ str_exn e @ '')'')] w)
      | Inr bpy \<Rightarrow> main bpy a w)"

definition parse_args_defaults :: "path \<Rightarrow> args" where
  \<comment> \<open>what \<open>parse_args\<close> returns for a command line with the input alone\<close>
  "parse_args_defaults p =
     \<lparr>input = p, output = None, suffix = ''_fixed'', verbose = 2,
      no_log_file = False, force_basic = False\<rparr>"

subsection \<open>Reading the history\<close>

fun fetched :: "event \<Rightarrow> string list" where
  "fetched (Fetch url) = [url]"
| "fetched _ = []"

fun invoked :: "event \<Rightarrow> (string \<times> kwargs \<times> outcome) list" where
  "invoked (Invoke p kw r) = [(p, kw, r)]"
| "invoked _ = []"

fun logged :: "event \<Rightarrow> (level \<times> string) list" where
  "logged (Log l m) = [(l, m)]"
| "logged _ = []"

definition fetches :: "event list \<Rightarrow> string list" where
  "fetches es = concat (map fetched es)"

definition invokes :: "event list \<Rightarrow> (string \<times> kwargs \<times> outcome) list" where
  "invokes es = concat (map invoked es)"

definition logs :: "event list \<Rightarrow> (level \<times> string) list" where
  "logs es = concat (map logged es)"

definition since :: "world \<Rightarrow> world \<Rightarrow> event list" where
  \<comment> \<open>what a run from \<open>w\<close> to \<open>w'\<close> added to the history\<close>
  "since w w' = drop (length (events w)) (events w')"

text \<open>
  \<open>confined E Q m\<close>: from any state, \<open>m\<close> only appends to the history, every event it
  appends satisfies \<open>Q\<close>, and an exception it raises satisfies \<open>E\<close>.
\<close>

definition confined :: "(exn \<Rightarrow> bool) \<Rightarrow> (event \<Rightarrow> bool) \<Rightarrow> 'a io \<Rightarrow> bool" where
  "confined E Q m =
     (\<forall>w. \<exists>es. events (snd (m w)) = events w @ es \<and> list_all Q es \<and>
             (case fst (m w) of Inl e \<Rightarrow> E e | Inr x \<Rightarrow> True))"


subsection \<open>A host for the examples\<close>

text \<open>
  A small host in the manner of Blender 4: \<open>mesh.remove_doubles\<close> is gone, the 3D-print
  add-on is not installed, and the machine is offline. The importer and the exporter
  are parameters.
\<close>

definition completes :: operator where
  "completes kw h = (None, h)"

definition fails :: operator where
  "fails kw h = (Some (RuntimeError ''operator failed''), h)"

definition stl_import :: operator where
  "stl_import kw h =
     (case map_of kw ''filepath'' of
        Some (S f) \<Rightarrow>
          (if fs h f = None then (Some (RuntimeError ''cannot read the file''), h)
           else (None, h\<lparr>objects := (objects h)(0 \<mapsto> \<lparr>name = ''part'', location = [1, 2, 3]\<rparr>),
                          active := Some 0, selected_objects := [0]\<rparr>))
      | _ \<Rightarrow> (Some (HostError ''filepath expected''), h))"

definition stl_export :: operator where
  \<comment> \<open>batch export: one file per object, named after the object\<close>
  "stl_export kw h =
     (case (map_of kw ''filepath'', active h) of
        (Some (S d), Some obj) \<Rightarrow>
          (case objects h obj of
             Some ob \<Rightarrow> (None, h\<lparr>fs := (fs h)(d @ name ob @ ''.stl'' \<mapsto> File ''solid'')\<rparr>)
           | None \<Rightarrow> (Some (RuntimeError ''nothing to export''), h))
      | _ \<Rightarrow> (Some (RuntimeError ''nothing to export''), h))"

definition stl_export_short :: operator where
  \<comment> \<open>an exporter on a host that cuts the names of the objects it writes to four
      characters\<close>
  "stl_export_short kw h =
     (case (map_of kw ''filepath'', active h) of
        (Some (S d), Some obj) \<Rightarrow>
          (case objects h obj of
             Some ob \<Rightarrow>
               (None, h\<lparr>objects := (objects h)(obj \<mapsto> ob\<lparr>name := take 4 (name ob)\<rparr>),
                         fs := (fs h)(d @ take 4 (name ob) @ ''.stl'' \<mapsto> File ''solid'')\<rparr>)
           | None \<Rightarrow> (Some (RuntimeError ''nothing to export''), h))
      | _ \<Rightarrow> (Some (RuntimeError ''nothing to export''), h))"

definition addon_enable :: operator where
  "addon_enable kw h =
     (if fs h ''/cfg/addons/object_print3d_utils'' = Some Dir then (None, h)
      else (Some (HostError ''add-on not found''), h))"

definition blender_ops ::
  "operator \<Rightarrow> operator \<Rightarrow> host \<Rightarrow> string \<Rightarrow> (string \<Rightarrow> operator option) option" where
  "blender_ops imp_op exp_op h m =
     (if m = ''object'' then
        Some (\<lambda>n. if n \<in> {''select_all'', ''delete'', ''mode_set'', ''origin_set''}
                  then Some completes else None)
      else if m = ''mesh'' then
        Some (\<lambda>n. if n \<in> {''select_all'', ''merge_by_distance'', ''fill_holes'',
                           ''normals_make_consistent''}
                  then Some completes else None)
      else if m = ''wm'' then
        Some (\<lambda>n. if n = ''stl_import'' then Some imp_op
                  else if n = ''stl_export'' then Some exp_op else None)
      else if m = ''preferences'' then
        Some (\<lambda>n. if n = ''addon_enable'' then Some addon_enable else None)
      else None)"

definition blender :: "operator \<Rightarrow> operator \<Rightarrow> env" where
  "blender imp_op exp_op =
     \<lparr>ops = blender_ops imp_op exp_op,
      user_resource = (\<lambda>h. (Inr ''/cfg/addons'', h)),
      addon_utils_check = (\<lambda>m h. (Inr [False, False], h)),
      mkdtemp = (\<lambda>h. (Inr ''/tmp/td'', h\<lparr>fs := (fs h)(''/tmp/td'' \<mapsto> Dir)\<rparr>)),
      rmtree = (\<lambda>d h. (None, h\<lparr>fs := (fs h)(d := None)\<rparr>)),
      urlretrieve = (\<lambda>url p h. (Some (HostError ''network is unreachable''), h)),
      zip_open = (\<lambda>p h. (Inl (HostError ''not a zip file''), h)),
      makedirs = (\<lambda>p h. (None, h\<lparr>fs := (fs h)(rstrip_slash p \<mapsto> Dir)\<rparr>)),
      write_file = (\<lambda>p c h. (None, h\<lparr>fs := (fs h)(p \<mapsto> File c)\<rparr>))\<rparr>"

text \<open>
  The same machine online: the download succeeds and the archive holds the add-on among
  other files.
\<close>

definition archive :: "(string \<times> string) list" where
  "archive =
     [(''blender-addons-main/'', ''''),
      (''blender-addons-main/README.md'', ''readme''),
      (''blender-addons-main/object_print3d_utils/'', ''''),
      (''blender-addons-main/object_print3d_utils/__init__.py'', ''import bpy'')]"

definition online :: "env \<Rightarrow> env" where
  "online bpy =
     bpy\<lparr>urlretrieve := (\<lambda>url p h. (None, h\<lparr>fs := (fs h)(p \<mapsto> File ''zip'')\<rparr>)),
         zip_open := (\<lambda>p h. (case fs h p of
                                 Some (File c) \<Rightarrow> Inr archive
                               | _ \<Rightarrow> Inl (HostError ''no such file''), h))\<rparr>"

definition part_stl :: path where
  "part_stl = \<lparr>absolute = True, parts = [''in'', ''part.stl'']\<rparr>"

definition disk :: host where
  "disk = \<lparr>objects = Map.empty, active = None, selected_objects = [],
           fs = [''/in/part.stl'' \<mapsto> File ''solid'']\<rparr>"

definition disk_with_addon :: host where
  "disk_with_addon = disk\<lparr>fs := (fs disk)(''/cfg/addons/object_print3d_utils'' \<mapsto> Dir)\<rparr>"

definition start :: world where
  "start = \<lparr>host = disk, events = []\<rparr>"

definition fixed_stl :: path where
  "fixed_stl = \<lparr>absolute = True, parts = [''in'', ''part_fixed.stl'']\<rparr>"

definition cmdline :: args where
  \<comment> \<open>\<open>stl-repair /in/part.stl\<close>\<close>
  "cmdline = parse_args_defaults part_stl"

definition basic_cmdline :: args where
  \<comment> \<open>\<open>stl-repair /in/part.stl --force-basic\<close>\<close>
  "basic_cmdline = cmdline\<lparr>force_basic := True\<rparr>"

definition obj_cmdline :: args where
  \<comment> \<open>\<open>stl-repair /in/part.stl -o out.obj --force-basic\<close>\<close>
  "obj_cmdline = basic_cmdline\<lparr>output := Some \<lparr>absolute = False, parts = [''out.obj'']\<rparr>\<rparr>"

definition installed :: world where
  "installed = \<lparr>host = disk_with_addon, events = []\<rparr>"

definition empty_disk :: world where
  "empty_disk = \<lparr>host = disk\<lparr>fs := Map.empty\<rparr>, events = []\<rparr>"

section \<open>Properties\<close>

subsection \<open>One guarded operator call\<close>

lemma rsplit1_dot:
  assumes "c \<in> set s"
  shows "\<exists>a b. rsplit1 c s = [a, b] \<and> s = a @ [c] @ b \<and> c \<notin> set b"
proof -
  let ?P = "\<lambda>x. x \<noteq> c"
  let ?t = "takeWhile ?P (rev s)"
  let ?d = "dropWhile ?P (rev s)"
  from assms have "c \<in> set (rev s)" by simp
  then have ne: "?d \<noteq> []" by (simp add: dropWhile_eq_Nil_conv)
  then have hd: "hd ?d = c" using hd_dropWhile [of ?P "rev s"] by simp
  from ne have d: "?d = c # tl ?d" using hd by (cases ?d) auto
  have "rev s = ?t @ ?d" by simp
  then have "rev s = ?t @ c # tl ?d" using d by simp
  then have "rev (rev s) = rev (?t @ c # tl ?d)" by simp
  then have "s = rev (tl ?d) @ [c] @ rev ?t" by simp
  moreover have "c \<notin> set (rev ?t)" using set_takeWhileD by fastforce
  ultimately show ?thesis using assms by (auto simp: rsplit1_def)
qed

lemma safe_call_dotted:
  assumes "CHR ''.'' \<in> set p"
  shows "\<exists>modname opname. p = modname @ ''.'' @ opname \<and> CHR ''.'' \<notin> set opname \<and>
     safe_call bpy p kw w =
       (case lookup_op bpy (host w) modname opname of
          None \<Rightarrow>
            (Inr False,
             emit [Invoke p kw Missing, Log DEBUG (''Operator missing: bpy.ops.'' @ p)] w)
        | Some operator \<Rightarrow>
           (case operator kw (host w) of
              (None, h') \<Rightarrow> (Inr True, emit [Invoke p kw Completed] (w\<lparr>host := h'\<rparr>))
            | (Some e, h') \<Rightarrow>
                (Inr False,
                 emit [Invoke p kw (Raised e),
                       Log DEBUG (''Operator '' @ p @ '' failed: '' @ str_exn e)]
                   (w\<lparr>host := h'\<rparr>))))"
proof -
  from rsplit1_dot [OF assms] obtain a b where
    ab: "rsplit1 CHR ''.'' p = [a, b]" "p = a @ ''.'' @ b" "CHR ''.'' \<notin> set b" by auto
  show ?thesis
  proof (intro exI conjI)
    show "p = a @ ''.'' @ b" by (rule ab(2))
    show "CHR ''.'' \<notin> set b" by (rule ab(3))
  qed (simp only: safe_call_def ab(1) list.case)
qed

lemma since_emit [simp]: "since w (emit es (w\<lparr>host := h\<rparr>)) = es" "since w (emit es w) = es"
  by (simp_all add: since_def emit_def)

lemma safe_call_step:
  assumes "CHR ''.'' \<in> set p"
  shows "\<exists>b r es h'. safe_call bpy p kw w = (Inr b, emit es (w\<lparr>host := h'\<rparr>)) \<and>
     invokes es = [(p, kw, r)] \<and> (b \<longleftrightarrow> r = Completed) \<and> fetches es = [] \<and>
     (if b then logs es = [] else (\<exists>msg. logs es = [(DEBUG, msg)]))"
proof -
  from safe_call_dotted [OF assms, of bpy kw w] obtain a b where
    sc: "safe_call bpy p kw w =
       (case lookup_op bpy (host w) a b of
          None \<Rightarrow>
            (Inr False,
             emit [Invoke p kw Missing, Log DEBUG (''Operator missing: bpy.ops.'' @ p)] w)
        | Some operator \<Rightarrow>
           (case operator kw (host w) of
              (None, h') \<Rightarrow> (Inr True, emit [Invoke p kw Completed] (w\<lparr>host := h'\<rparr>))
            | (Some e, h') \<Rightarrow>
                (Inr False,
                 emit [Invoke p kw (Raised e),
                       Log DEBUG (''Operator '' @ p @ '' failed: '' @ str_exn e)]
                   (w\<lparr>host := h'\<rparr>))))"
    by blast
  show ?thesis
  proof (cases "lookup_op bpy (host w) a b")
    case None
    with sc have "safe_call bpy p kw w =
        (Inr False, emit [Invoke p kw Missing, Log DEBUG (''Operator missing: bpy.ops.'' @ p)]
           (w\<lparr>host := host w\<rparr>))" by simp
    then show ?thesis
      by (intro exI [of _ False] exI [of _ Missing] exI conjI, assumption)
         (simp_all add: invokes_def fetches_def logs_def)
  next
    case (Some operator)
    obtain r h' where op: "operator kw (host w) = (r, h')" by (cases "operator kw (host w)")
    show ?thesis
    proof (cases r)
      case None
      with sc Some op have "safe_call bpy p kw w =
          (Inr True, emit [Invoke p kw Completed] (w\<lparr>host := h'\<rparr>))" by simp
      then show ?thesis
        by (intro exI [of _ True] exI [of _ Completed] exI conjI, assumption)
           (simp_all add: invokes_def fetches_def logs_def)
    next
      case (Some e)
      with sc \<open>lookup_op bpy (host w) a b = Some operator\<close> op have "safe_call bpy p kw w =
          (Inr False, emit [Invoke p kw (Raised e),
             Log DEBUG (''Operator '' @ p @ '' failed: '' @ str_exn e)] (w\<lparr>host := h'\<rparr>))"
        by simp
      then show ?thesis
        by (intro exI [of _ False] exI [of _ "Raised e"] exI conjI, assumption)
           (simp_all add: invokes_def fetches_def logs_def)
    qed
  qed
qed

subsection \<open>\<open>safe_call\<close> degrades, never raises\<close>

text \<open>
  Claim C4. For an operator path with a dot and any keyword arguments, \<open>safe_call\<close>
  returns and never raises. It returns \<open>True\<close> exactly when the operator exists and the
  host call completes; when the operator is missing or the host call raises, it returns
  \<open>False\<close> and hands one record to the logger, at level DEBUG.
\<close>

theorem safe_call_never_raises:
  assumes "CHR ''.'' \<in> set op_path"
  shows "\<exists>modname opname b w'.
     op_path = modname @ ''.'' @ opname \<and> CHR ''.'' \<notin> set opname \<and>
     safe_call bpy op_path kw w = (Inr b, w') \<and>
     b = (case lookup_op bpy (host w) modname opname of
            None \<Rightarrow> False
          | Some operator \<Rightarrow> fst (operator kw (host w)) = None) \<and>
     (if b then logs (since w w') = [] else (\<exists>msg. logs (since w w') = [(DEBUG, msg)]))"
proof -
  from safe_call_dotted [OF assms, of bpy kw w] obtain a b where
    ab: "op_path = a @ ''.'' @ b" "CHR ''.'' \<notin> set b" 
    and sc: "safe_call bpy op_path kw w =
       (case lookup_op bpy (host w) a b of
          None \<Rightarrow>
            (Inr False,
             emit [Invoke op_path kw Missing,
                   Log DEBUG (''Operator missing: bpy.ops.'' @ op_path)] w)
        | Some operator \<Rightarrow>
           (case operator kw (host w) of
              (None, h') \<Rightarrow> (Inr True, emit [Invoke op_path kw Completed] (w\<lparr>host := h'\<rparr>))
            | (Some e, h') \<Rightarrow>
                (Inr False,
                 emit [Invoke op_path kw (Raised e),
                       Log DEBUG (''Operator '' @ op_path @ '' failed: '' @ str_exn e)]
                   (w\<lparr>host := h'\<rparr>))))"
    by blast
  show ?thesis
    apply (rule exI [of _ a], rule exI [of _ b])
    using ab(2) sc
    apply (simp add: ab(1) [symmetric] del: append.simps)
    apply (auto simp: logs_def split: option.splits prod.splits)
    done
qed

subsection \<open>What a run can add to the history, and what it can raise\<close>

lemma confinedI:
  assumes "\<And>w. \<exists>es. events (snd (m w)) = events w @ es \<and> list_all Q es \<and>
             (case fst (m w) of Inl e \<Rightarrow> E e | Inr x \<Rightarrow> True)"
  shows "confined E Q m"
  using assms by (simp add: confined_def)

lemma confinedD:
  assumes "confined E Q m" and "m w = (r, w')"
  shows "\<exists>es. events w' = events w @ es \<and> list_all Q es"
    and "\<And>e. r = Inl e \<Longrightarrow> E e"
  using assms by (auto simp: confined_def dest!: spec [of _ w])

lemma confined_weaken:
  assumes "confined E Q m" and "\<And>e. E e \<Longrightarrow> E' e" and "\<And>ev. Q ev \<Longrightarrow> Q' ev"
  shows "confined E' Q' m"
proof (rule confinedI)
  fix w
  from assms(1) obtain es where es: "events (snd (m w)) = events w @ es" "list_all Q es"
      "case fst (m w) of Inl e \<Rightarrow> E e | Inr x \<Rightarrow> True"
    by (auto simp: confined_def dest!: spec [of _ w])
  from es(2) assms(3) have "list_all Q' es" by (auto simp: list_all_iff)
  moreover from es(3) assms(2) have "case fst (m w) of Inl e \<Rightarrow> E' e | Inr x \<Rightarrow> True"
    by (auto split: sum.splits)
  ultimately show "\<exists>es. events (snd (m w)) = events w @ es \<and> list_all Q' es \<and>
             (case fst (m w) of Inl e \<Rightarrow> E' e | Inr x \<Rightarrow> True)"
    using es(1) by blast
qed

lemma confined_ret: "confined E Q (ret x)"
  by (simp add: confined_def ret_def)

lemma confined_raise: "E e \<Longrightarrow> confined E Q (raise e)"
  by (simp add: confined_def raise_def)

lemma confined_then_do:
  assumes "confined E Q m" and "\<And>x. confined E Q (k x)"
  shows "confined E Q (then_do m k)"
proof (rule confinedI)
  fix w
  obtain r w1 where m: "m w = (r, w1)" by (cases "m w")
  from confinedD [OF assms(1) m] obtain es1 where
    es1: "events w1 = events w @ es1" "list_all Q es1" and e1: "\<And>e. r = Inl e \<Longrightarrow> E e"
    by blast
  show "\<exists>es. events (snd (then_do m k w)) = events w @ es \<and> list_all Q es \<and>
             (case fst (then_do m k w) of Inl e \<Rightarrow> E e | Inr x \<Rightarrow> True)"
  proof (cases r)
    case (Inl e)
    with m es1 e1 show ?thesis by (auto simp: then_do_def)
  next
    case (Inr x)
    obtain r2 w2 where k: "k x w1 = (r2, w2)" by (cases "k x w1")
    from confinedD [OF assms(2) k] obtain es2 where
      es2: "events w2 = events w1 @ es2" "list_all Q es2" and e2: "\<And>e. r2 = Inl e \<Longrightarrow> E e"
      by blast
    have "events w2 = events w @ (es1 @ es2)" using es1 es2 by simp
    moreover have "list_all Q (es1 @ es2)" using es1 es2 by simp
    ultimately show ?thesis using Inr m k e2
      by (auto simp: then_do_def split: sum.splits)
  qed
qed

lemma confined_try_except:
  assumes "confined (\<lambda>_. True) Q m" and "\<And>e. confined E Q (h e)"
  shows "confined E Q (try_except m h)"
proof (rule confinedI)
  fix w
  obtain r w1 where m: "m w = (r, w1)" by (cases "m w")
  from confinedD [OF assms(1) m] obtain es1 where
    es1: "events w1 = events w @ es1" "list_all Q es1"
    by blast
  show "\<exists>es. events (snd (try_except m h w)) = events w @ es \<and> list_all Q es \<and>
             (case fst (try_except m h w) of Inl e \<Rightarrow> E e | Inr x \<Rightarrow> True)"
  proof (cases r)
    case (Inr x)
    with m es1 show ?thesis by (auto simp: try_except_def)
  next
    case (Inl e)
    obtain r2 w2 where k: "h e w1 = (r2, w2)" by (cases "h e w1")
    from confinedD [OF assms(2) k] obtain es2 where
      es2: "events w2 = events w1 @ es2" "list_all Q es2" and e2: "\<And>e. r2 = Inl e \<Longrightarrow> E e"
      by blast
    have "events w2 = events w @ (es1 @ es2)" using es1 es2 by simp
    moreover have "list_all Q (es1 @ es2)" using es1 es2 by simp
    ultimately show ?thesis using Inl m k e2
      by (auto simp: try_except_def split: sum.splits)
  qed
qed

lemma confined_if:
  assumes "c \<Longrightarrow> confined E Q a" and "\<not> c \<Longrightarrow> confined E Q b"
  shows "confined E Q (if c then a else b)"
  using assms by simp

lemma confined_logger: "Q (Log l msg) \<Longrightarrow> confined E Q (logger l msg)"
  by (simp add: confined_def logger_def emit_def)

lemma confined_os_call: "(\<And>e. E e) \<Longrightarrow> confined E Q (os_call f)"
  by (auto simp: confined_def os_call_def split: prod.splits option.splits)

lemma confined_os_get: "(\<And>e. E e) \<Longrightarrow> confined E Q (os_get f)"
  by (auto simp: confined_def os_get_def split: prod.splits sum.splits)

lemma confined_get_name: "(\<And>m. E (ReferenceError m)) \<Longrightarrow> confined E Q (get_name obj)"
  by (auto simp: confined_def get_name_def split: option.splits)

lemma confined_set_name: "(\<And>m. E (ReferenceError m)) \<Longrightarrow> confined E Q (set_name obj v)"
  by (auto simp: confined_def set_name_def split: option.splits)

lemma confined_set_location:
  "(\<And>m. E (ReferenceError m)) \<Longrightarrow> (\<And>m. E (IndexError m)) \<Longrightarrow>
   confined E Q (set_location obj i v)"
  by (auto simp: confined_def set_location_def split: option.splits)

lemma confined_active_or_selected:
  "(\<And>m. E (IndexError m)) \<Longrightarrow> confined E Q active_or_selected"
  by (auto simp: confined_def active_or_selected_def split: option.splits list.splits)

lemma confined_set_active: "confined E Q (set_active obj)"
  by (simp add: confined_def set_active_def)

lemma confined_os_path_isdir: "confined E Q (os_path_isdir p)"
  by (simp add: confined_def os_path_isdir_def)

lemma confined_call_op:
  "(\<And>e. E e) \<Longrightarrow> (\<And>p kw r. Q (Invoke p kw r)) \<Longrightarrow> confined E Q (call_op bpy m n kw)"
  by (auto simp: confined_def call_op_def emit_def Let_def split: prod.splits option.splits)

lemma confined_safe_call:
  assumes "CHR ''.'' \<in> set p" and "\<And>r. Q (Invoke p kw r)" and "\<And>msg. Q (Log DEBUG msg)"
  shows "confined E Q (safe_call bpy p kw)"
proof (rule confinedI)
  fix w
  from safe_call_dotted [OF assms(1), of bpy kw w] obtain a b where
    sc: "safe_call bpy p kw w =
       (case lookup_op bpy (host w) a b of
          None \<Rightarrow>
            (Inr False,
             emit [Invoke p kw Missing, Log DEBUG (''Operator missing: bpy.ops.'' @ p)] w)
        | Some operator \<Rightarrow>
           (case operator kw (host w) of
              (None, h') \<Rightarrow> (Inr True, emit [Invoke p kw Completed] (w\<lparr>host := h'\<rparr>))
            | (Some e, h') \<Rightarrow>
                (Inr False,
                 emit [Invoke p kw (Raised e),
                       Log DEBUG (''Operator '' @ p @ '' failed: '' @ str_exn e)]
                   (w\<lparr>host := h'\<rparr>))))"
    by blast
  show "\<exists>es. events (snd (safe_call bpy p kw w)) = events w @ es \<and> list_all Q es \<and>
             (case fst (safe_call bpy p kw w) of Inl e \<Rightarrow> E e | Inr x \<Rightarrow> True)"
    unfolding sc using assms(2,3)
    by (auto simp: emit_def split: option.splits prod.splits)
qed

lemma confined_for_each:
  assumes "\<And>x. confined E Q (body x)"
  shows "confined E Q (for_each body xs)"
  by (induction xs) (auto intro: confined_ret confined_then_do assms)

lemma confined_cleanup:
  assumes "\<And>e. E e" and "confined E Q body"
  shows "confined E Q (cleanup bpy td body)"
proof (rule confinedI)
  fix w
  obtain r w1 where b: "body w = (r, w1)" by (cases "body w")
  from confinedD(1) [OF assms(2) b] obtain es where
    es: "events w1 = events w @ es" "list_all Q es" by blast
  show "\<exists>es. events (snd (cleanup bpy td body w)) = events w @ es \<and> list_all Q es \<and>
         (case fst (cleanup bpy td body w) of Inl e \<Rightarrow> E e | Inr x \<Rightarrow> True)"
    using b es assms(1)
    by (auto simp: cleanup_def os_call_def split: prod.splits option.splits sum.splits)
qed

lemma confined_with_tempdir:
  assumes "\<And>e. E e" and "\<And>td. confined E Q (body td)"
  shows "confined E Q (with_tempdir bpy body)"
  unfolding with_tempdir_def
  by (intro confined_then_do confined_os_get confined_cleanup assms)

lemma confined_fetch:
  assumes "\<And>e. E e" and "Q (Fetch url)"
  shows "confined E Q (fetch bpy url p)"
  using assms by (auto simp: confined_def fetch_def os_call_def emit_def split: prod.splits option.splits)

lemmas confined_intros =
  confined_ret confined_then_do confined_try_except confined_if confined_logger confined_os_call
  confined_os_get confined_get_name confined_set_name confined_set_location
  confined_active_or_selected confined_set_active confined_os_path_isdir confined_call_op
  confined_safe_call confined_for_each confined_with_tempdir confined_cleanup confined_fetch
  confined_raise


subsection \<open>Stepping through a run\<close>

lemma then_do_Inr: "m w = (Inr x, w') \<Longrightarrow> then_do m k w = k x w'"
  by (simp add: then_do_def)

lemma then_do_Inl: "m w = (Inl e, w') \<Longrightarrow> then_do m k w = (Inl e, w')"
  by (simp add: then_do_def)

lemma then_do_returns:
  assumes "then_do m k w = (Inr y, w'')"
  obtains x w' where "m w = (Inr x, w')" and "k x w' = (Inr y, w'')"
  using assms by (auto simp: then_do_def split: prod.splits sum.splits)

lemma invokes_append [simp]: "invokes (xs @ ys) = invokes xs @ invokes ys"
  by (simp add: invokes_def)

lemma fetches_append [simp]: "fetches (xs @ ys) = fetches xs @ fetches ys"
  by (simp add: fetches_def)

lemma logs_append [simp]: "logs (xs @ ys) = logs xs @ logs ys"
  by (simp add: logs_def)

lemma invokes_simps [simp]:
  "invokes [] = []"
  "invokes (Log l m # es) = invokes es"
  "invokes (Fetch u # es) = invokes es"
  "invokes (Invoke p kw r # es) = (p, kw, r) # invokes es"
  by (simp_all add: invokes_def)

lemma fetches_simps [simp]:
  "fetches [] = []"
  "fetches (Log l m # es) = fetches es"
  "fetches (Fetch u # es) = u # fetches es"
  "fetches (Invoke p kw r # es) = fetches es"
  by (simp_all add: fetches_def)

lemma logs_simps [simp]:
  "logs [] = []"
  "logs (Log l m # es) = (l, m) # logs es"
  "logs (Fetch u # es) = logs es"
  "logs (Invoke p kw r # es) = logs es"
  by (simp_all add: logs_def)

lemma safe_call_stepE:
  assumes "CHR ''.'' \<in> set p"
  obtains b r es w' where "safe_call bpy p kw w = (Inr b, w')"
    and "events w' = events w @ es" and "invokes es = [(p, kw, r)]"
    and "b \<longleftrightarrow> r = Completed" and "fetches es = []"
    and "Log INFO ''Applying basic mesh repair'' \<notin> set es"
proof -
  from safe_call_dotted [OF assms, of bpy kw w] obtain a b where
    sc: "safe_call bpy p kw w =
       (case lookup_op bpy (host w) a b of
          None \<Rightarrow>
            (Inr False,
             emit [Invoke p kw Missing, Log DEBUG (''Operator missing: bpy.ops.'' @ p)] w)
        | Some operator \<Rightarrow>
           (case operator kw (host w) of
              (None, h') \<Rightarrow> (Inr True, emit [Invoke p kw Completed] (w\<lparr>host := h'\<rparr>))
            | (Some e, h') \<Rightarrow>
                (Inr False,
                 emit [Invoke p kw (Raised e),
                       Log DEBUG (''Operator '' @ p @ '' failed: '' @ str_exn e)]
                   (w\<lparr>host := h'\<rparr>))))"
    by blast
  obtain bb w' where r: "safe_call bpy p kw w = (bb, w')" by (cases "safe_call bpy p kw w")
  with sc have "\<exists>b r es. bb = Inr b \<and> events w' = events w @ es \<and> invokes es = [(p, kw, r)] \<and>
      (b \<longleftrightarrow> r = Completed) \<and> fetches es = [] \<and>
      Log INFO ''Applying basic mesh repair'' \<notin> set es"
    by (auto simp: emit_def split: option.splits prod.splits)
  with r that show thesis by blast
qed

subsection \<open>The generic repair\<close>


subsection \<open>The repair with the add-on\<close>

text \<open>
  Claim C3. With \<open>use_print_addon\<close> set, the repair step asks for the two operators of
  the add-on and for nothing else, whatever becomes of them: missing or raising, they are
  logged by \<open>safe_call\<close>, which returns; the handler that would run \<open>basic_mesh_repair\<close>
  is never entered, and its log record never appears. The generic repair is not
  substituted.
\<close>

theorem print_addon_failure_skips_basic_repair:
  "\<exists>w' es r1 r2.
     repair_stl_repair bpy True obj w = (Inr (), w') \<and> events w' = events w @ es \<and>
     invokes es =
       [(''mesh.print3d_check_all'', [], r1), (''mesh.print3d_clean_non_manifold'', [], r2)] \<and>
     Log INFO ''Applying basic mesh repair'' \<notin> set es"
proof -
  define w0 where "w0 = emit [Log INFO ''Running 3D Print add-on checks''] w"
  have e0: "events w0 = events w @ [Log INFO ''Running 3D Print add-on checks'']"
    by (simp add: w0_def emit_def)
  obtain b1 r1 es1 w1 where s1:
    "safe_call bpy ''mesh.print3d_check_all'' [] w0 = (Inr b1, w1)"
    "events w1 = events w0 @ es1" "invokes es1 = [(''mesh.print3d_check_all'', [], r1)]"
    "Log INFO ''Applying basic mesh repair'' \<notin> set es1"
    by (rule safe_call_stepE [of "''mesh.print3d_check_all''" bpy "[]" w0]) simp_all
  obtain b2 r2 es2 w2 where s2:
    "safe_call bpy ''mesh.print3d_clean_non_manifold'' [] w1 = (Inr b2, w2)"
    "events w2 = events w1 @ es2"
    "invokes es2 = [(''mesh.print3d_clean_non_manifold'', [], r2)]"
    "Log INFO ''Applying basic mesh repair'' \<notin> set es2"
    by (rule safe_call_stepE [of "''mesh.print3d_clean_non_manifold''" bpy "[]" w1]) simp_all
  have run: "repair_stl_repair bpy True obj w = (Inr (), w2)"
    by (simp add: repair_stl_repair_def try_except_def then_do_def logger_def
        w0_def [symmetric] s1(1) s2(1) ret_def)
  let ?es = "Log INFO ''Running 3D Print add-on checks'' # es1 @ es2"
  have "events w2 = events w @ ?es" using e0 s1(2) s2(2) by simp
  moreover have "invokes ?es =
     [(''mesh.print3d_check_all'', [], r1), (''mesh.print3d_clean_non_manifold'', [], r2)]"
    using s1(3) s2(3) by simp
  moreover have "Log INFO ''Applying basic mesh repair'' \<notin> set ?es"
    using s1(4) s2(4) by simp
  ultimately show ?thesis using run by blast
qed

subsection \<open>The export\<close>

lemma safe_call_stl_export:
  "safe_call bpy ''wm.stl_export'' kw w =
     (case lookup_op bpy (host w) ''wm'' ''stl_export'' of
        None \<Rightarrow>
          (Inr False,
           emit [Invoke ''wm.stl_export'' kw Missing,
                 Log DEBUG ''Operator missing: bpy.ops.wm.stl_export''] w)
      | Some operator \<Rightarrow>
          (case operator kw (host w) of
             (None, h') \<Rightarrow> (Inr True, emit [Invoke ''wm.stl_export'' kw Completed] (w\<lparr>host := h'\<rparr>))
           | (Some e, h') \<Rightarrow>
               (Inr False,
                emit [Invoke ''wm.stl_export'' kw (Raised e),
                      Log DEBUG (''Operator wm.stl_export failed: '' @ str_exn e)]
                  (w\<lparr>host := h'\<rparr>))))"
  by (auto simp: safe_call_def rsplit1_def split: option.splits prod.splits)

lemma repair_stl_export_returns:
  assumes "repair_stl_export bpy out obj w = (Inr p, w')"
  obtains ob operator h2 ob2 where
    "objects (host w) obj = Some ob"
    and "lookup_op bpy ((host w)\<lparr>objects := (objects (host w))(obj \<mapsto> ob\<lparr>name := path_stem out\<rparr>)\<rparr>)
           ''wm'' ''stl_export'' = Some operator"
    and "operator [(''filepath'', S (path_str (path_parent out) @ ''/'')),
                  (''display_type'', S ''DEFAULT''),
                  (''use_batch'', B True),
                  (''export_selected_objects'', B True)]
           ((host w)\<lparr>objects := (objects (host w))(obj \<mapsto> ob\<lparr>name := path_stem out\<rparr>)\<rparr>)
         = (None, h2)"
    and "objects h2 obj = Some ob2"
    and "p = path_join (path_parent out) (name ob2 @ ''.stl'')"
    and "objects (host w') obj = Some (ob2\<lparr>name := name ob\<rparr>)"
  using assms
  by (auto simp: repair_stl_export_def Let_def then_do_def get_name_def set_name_def
      safe_call_stl_export raise_def ret_def logger_def emit_def
      split: option.splits prod.splits sum.splits if_splits)

text \<open>
  Claim C9, as amended. A successful run of \<open>repair_stl\<close> returns the parent of the
  output path joined with the name the object has when the export operator returns,
  plus \<open>.stl\<close>: line 154 reads \<open>obj.name\<close> back after the export. That is the stem of the
  output path plus \<open>.stl\<close> whenever the export operator leaves the object under the name
  line 145 gave it.
\<close>

theorem returned_path_follows_exported_name:
  assumes "repair_stl bpy input_path output_path use_print_addon sfx w = (Inr p, w')"
  shows "\<exists>obj w1 ob operator h2 ob2.
     repair_stl_prepare bpy input_path use_print_addon sfx w = (Inr obj, w1) \<and>
     objects (host w1) obj = Some ob \<and>
     lookup_op bpy
       ((host w1)\<lparr>objects := (objects (host w1))(obj \<mapsto> ob\<lparr>name := path_stem output_path\<rparr>)\<rparr>)
       ''wm'' ''stl_export'' = Some operator \<and>
     operator [(''filepath'', S (path_str (path_parent output_path) @ ''/'')),
               (''display_type'', S ''DEFAULT''),
               (''use_batch'', B True),
               (''export_selected_objects'', B True)]
       ((host w1)\<lparr>objects := (objects (host w1))(obj \<mapsto> ob\<lparr>name := path_stem output_path\<rparr>)\<rparr>)
       = (None, h2) \<and>
     objects h2 obj = Some ob2 \<and>
     p = path_join (path_parent output_path) (name ob2 @ ''.stl'') \<and>
     (name ob2 = path_stem output_path \<longrightarrow>
        p = path_join (path_parent output_path) (path_stem output_path @ ''.stl''))"
proof -
  from assms obtain obj w1 where
    prep: "repair_stl_prepare bpy input_path use_print_addon sfx w = (Inr obj, w1)"
    and exp: "repair_stl_export bpy output_path obj w1 = (Inr p, w')"
    unfolding repair_stl_def by (rule then_do_returns)
  from exp show ?thesis
  proof (rule repair_stl_export_returns)
    fix ob operator h2 ob2
    assume "objects (host w1) obj = Some ob"
      and "lookup_op bpy
        ((host w1)\<lparr>objects := (objects (host w1))(obj \<mapsto> ob\<lparr>name := path_stem output_path\<rparr>)\<rparr>)
        ''wm'' ''stl_export'' = Some operator"
      and "operator [(''filepath'', S (path_str (path_parent output_path) @ ''/'')),
               (''display_type'', S ''DEFAULT''),
               (''use_batch'', B True),
               (''export_selected_objects'', B True)]
       ((host w1)\<lparr>objects := (objects (host w1))(obj \<mapsto> ob\<lparr>name := path_stem output_path\<rparr>)\<rparr>)
       = (None, h2)"
      and "objects h2 obj = Some ob2"
      and "p = path_join (path_parent output_path) (name ob2 @ ''.stl'')"
    with prep show ?thesis by (intro exI conjI impI) (assumption | simp)+
  qed
qed


subsection \<open>The output path and the suffix\<close>

lemma takeWhile_stop:
  "\<forall>x\<in>set xs. P x \<Longrightarrow> \<not> P y \<Longrightarrow> takeWhile P (xs @ y # ys) = xs"
  by (induction xs) auto

lemma rfind_append_ext:
  assumes "c \<notin> set e"
  shows "rfind c (s @ c # e) = int (length s)"
proof -
  have "takeWhile (\<lambda>x. x \<noteq> c) (rev e @ c # rev s) = rev e"
    using assms by (intro takeWhile_stop) auto
  then show ?thesis by (simp add: rfind_def)
qed

lemma has_ext_stl: "s \<noteq> [] \<Longrightarrow> has_ext (s @ ''.stl'')"
  using rfind_append_ext [of "CHR ''.''" "''stl''" s] by (simp add: has_ext_def)

lemma path_name_if: "path_name p = (if parts p = [] then [] else last (parts p))"
  by (cases "parts p") (simp_all add: path_name_def)

lemma path_name_replaced [simp]: "path_name (p\<lparr>parts := butlast (parts p) @ [n]\<rparr>) = n"
  by (simp add: path_name_if)

lemma path_parent_replaced [simp]:
  "path_parent (p\<lparr>parts := butlast (parts p) @ [n]\<rparr>) = path_parent p"
  by (simp add: path_parent_def)

lemma path_stem_nonempty: "path_name p \<noteq> [] \<Longrightarrow> path_stem p \<noteq> []"
  by (auto simp: path_stem_def has_ext_def Let_def)

lemma with_suffix_stl:
  assumes "with_suffix p ''.stl'' = Inr out"
  shows "path_parent out = path_parent p" and "path_stem out = path_stem p"
    and "path_suffix out = ''.stl''"
proof -
  from assms have ne: "path_name p \<noteq> []"
    and out: "out = p\<lparr>parts := butlast (parts p) @ [path_stem p @ ''.stl'']\<rparr>"
    by (auto simp: with_suffix_def startswith_def split: if_splits)
  have st: "path_stem p \<noteq> []" using ne by (rule path_stem_nonempty)
  have rf: "rfind CHR ''.'' (path_stem p @ ''.stl'') = int (length (path_stem p))"
    using rfind_append_ext [of "CHR ''.''" "''stl''" "path_stem p"] by simp
  show "path_parent out = path_parent p" using out by simp
  have nm: "path_name out = path_stem p @ ''.stl''" using out by simp
  show "path_stem out = path_stem p"
    by (simp add: path_stem_def [of out] nm has_ext_stl [OF st] rf)
  show "path_suffix out = ''.stl''"
    by (simp add: path_suffix_def [of out] nm has_ext_stl [OF st] rf)
qed

lemma with_stem_name:
  assumes "with_stem p s = Inr q"
  shows "path_name q = s @ path_suffix p" and "path_parent q = path_parent p"
  using assms by (auto simp: with_stem_def with_name_def split: if_splits)

lemma repair_stl_import_suffix:
  assumes "repair_stl_import bpy i [] w = (Inr obj, w0)" and "objects (host w0) obj = Some ob"
  shows "repair_stl_import bpy i s w =
     (Inr obj, w0\<lparr>host := (host w0)\<lparr>objects := (objects (host w0))(obj \<mapsto> ob\<lparr>name := name ob @ s\<rparr>)\<rparr>\<rparr>)"
proof -
  from assms(1) have load: "repair_stl_load bpy i w = (Inr obj, w0)"
    by (auto simp: repair_stl_import_def then_do_def ret_def split: prod.splits sum.splits)
  have same: "(objects (host w0))(obj \<mapsto> ob) = objects (host w0)"
    using assms(2) by (simp add: fun_upd_idem)
  show ?thesis
    using load assms(2) same
    by (simp add: repair_stl_import_def then_do_def ret_def get_name_def set_name_def)
qed

lemma main_ignores_suffix:
  assumes "output a \<noteq> None"
  shows "main bpy (a\<lparr>suffix := s\<rparr>) w = main bpy a w"
proof -
  from assms obtain q where q: "output a = Some q" by auto
  have mo: "main_output (a\<lparr>suffix := s\<rparr>) = main_output a"
    using q by (simp add: main_output_def chosen_output_def)
  have ma: "main_addon bpy (a\<lparr>suffix := s\<rparr>) = main_addon bpy a"
    by (simp add: main_addon_def)
  have mr: "main_repair bpy (a\<lparr>suffix := s\<rparr>) = main_repair bpy a"
    using q by (intro ext) (simp add: main_repair_def main_suffix_def)
  have inp: "input (a\<lparr>suffix := s\<rparr>) = input a" by simp
  show ?thesis unfolding main_def mo ma mr inp by (rule refl)
qed

text \<open>
  Claim C8. Without \<open>-o\<close> the chosen output path is the input path with the suffix
  inserted between stem and extension (for a command line with the input alone the
  suffix is \<open>_fixed\<close>); with \<open>-o\<close> it is the path given. When the extension of the chosen
  path is not \<open>.stl\<close> in any case of letters, the output path keeps parent and stem and has
  the extension \<open>.stl\<close>; otherwise it is the chosen path. \<open>main\<close> hands \<open>repair_stl\<close> this
  output path, and the suffix only without \<open>-o\<close> (the empty string with \<open>-o\<close>, so that the
  run does not depend on the suffix at all); \<open>repair_stl\<close> appends the string it is
  handed to the name of the imported object.
\<close>

theorem output_path_and_suffix:
  "(output a = None \<and> chosen_output a = Inr p \<longrightarrow>
      path_name p = path_stem (input a) @ suffix a @ path_suffix (input a) \<and>
      path_parent p = path_parent (input a)) \<and>
   (output a = Some q \<longrightarrow> chosen_output a = Inr q) \<and>
   suffix (parse_args_defaults i) = ''_fixed'' \<and>
   (chosen_output a = Inr p \<and> main_output a = Inr out \<longrightarrow>
      (if lower (path_suffix p) = ''.stl'' then out = p
       else path_parent out = path_parent p \<and> path_stem out = path_stem p \<and>
            path_suffix out = ''.stl'')) \<and>
   (path_exists (host w) (input a) \<and> main_output a = Inr out \<and>
    main_addon bpy a w = (Inr use_addon, w1) \<longrightarrow>
      main bpy a w =
        (case repair_stl bpy (input a) out use_addon
                (if output a = None then suffix a else []) w1 of
           (Inr final_file, w') \<Rightarrow>
             (Returned, emit [Log INFO (''Repaired file saved: '' @ path_str final_file)] w')
         | (Inl e, w') \<Rightarrow>
             (SysExit 2, emit [Log ERROR (''Repair failed: '' @ str_exn e)] w'))) \<and>
   (output a \<noteq> None \<longrightarrow> main bpy (a\<lparr>suffix := s\<rparr>) w = main bpy a w) \<and>
   (repair_stl_import bpy i' [] w = (Inr obj, w0) \<and> objects (host w0) obj = Some ob \<longrightarrow>
      repair_stl_import bpy i' s w =
        (Inr obj, w0\<lparr>host := (host w0)\<lparr>objects :=
                    (objects (host w0))(obj \<mapsto> ob\<lparr>name := name ob @ s\<rparr>)\<rparr>\<rparr>))"
proof (intro conjI impI)
  assume h: "output a = None \<and> chosen_output a = Inr p"
  then have ws: "with_stem (input a) (path_stem (input a) @ suffix a) = Inr p"
    by (auto simp: chosen_output_def)
  show "path_name p = path_stem (input a) @ suffix a @ path_suffix (input a)"
    using with_stem_name(1) [OF ws] by simp
  show "path_parent p = path_parent (input a)"
    by (rule with_stem_name(2) [OF ws])
next
  assume "output a = Some q"
  then show "chosen_output a = Inr q" by (simp add: chosen_output_def)
next
  show "suffix (parse_args_defaults i) = ''_fixed''" by (simp add: parse_args_defaults_def)
next
  assume h: "chosen_output a = Inr p \<and> main_output a = Inr out"
  show "if lower (path_suffix p) = ''.stl'' then out = p
       else path_parent out = path_parent p \<and> path_stem out = path_stem p \<and>
            path_suffix out = ''.stl''"
  proof (cases "lower (path_suffix p) = ''.stl''")
    case True
    with h show ?thesis by (auto simp: main_output_def)
  next
    case False
    with h have "with_suffix p ''.stl'' = Inr out" by (auto simp: main_output_def)
    from with_suffix_stl [OF this] False show ?thesis by simp
  qed
next
  assume h: "path_exists (host w) (input a) \<and> main_output a = Inr out \<and>
    main_addon bpy a w = (Inr use_addon, w1)"
  have ms: "main_suffix a = (if output a = None then suffix a else [])"
    by (simp add: main_suffix_def)
  from h show "main bpy a w =
        (case repair_stl bpy (input a) out use_addon
                (if output a = None then suffix a else []) w1 of
           (Inr final_file, w') \<Rightarrow>
             (Returned, emit [Log INFO (''Repaired file saved: '' @ path_str final_file)] w')
         | (Inl e, w') \<Rightarrow>
             (SysExit 2, emit [Log ERROR (''Repair failed: '' @ str_exn e)] w'))"
    by (auto simp: main_def main_repair_def ms)
next
  assume "output a \<noteq> None"
  then show "main bpy (a\<lparr>suffix := s\<rparr>) w = main bpy a w" by (rule main_ignores_suffix)
next
  assume "repair_stl_import bpy i' [] w = (Inr obj, w0) \<and> objects (host w0) obj = Some ob"
  then show "repair_stl_import bpy i' s w =
        (Inr obj, w0\<lparr>host := (host w0)\<lparr>objects :=
                    (objects (host w0))(obj \<mapsto> ob\<lparr>name := name ob @ s\<rparr>)\<rparr>\<rparr>)"
    using repair_stl_import_suffix by blast
qed

subsection \<open>What each part of the script can add and raise\<close>

lemma confined_extract_member:
  assumes "\<And>e. E e"
  shows "confined E Q (extract_member bpy d member)"
  unfolding extract_member_def Let_def
  by (cases member) (auto intro!: confined_intros assms)

lemma confined_download_addon:
  assumes "\<And>e. E e" and "\<And>l m. Q (Log l m)" and "\<And>u. Q (Fetch u)"
  shows "confined E Q (download_addon bpy d folder)"
  unfolding download_addon_def Let_def
  by (intro confined_intros confined_extract_member assms)

lemma confined_attempt_install:
  assumes "\<And>l m. Q (Log l m)" and "\<And>u. Q (Fetch u)" and "\<And>p kw r. Q (Invoke p kw r)"
  shows "confined E Q (attempt_install_print_addon bpy)"
  unfolding attempt_install_print_addon_def Let_def
  by (intro confined_intros confined_download_addon assms) simp_all

lemma confined_enable_present_addon:
  assumes "\<And>e. E e" and "\<And>l m. Q (Log l m)" and "\<And>p kw r. Q (Invoke p kw r)"
  shows "confined E Q (enable_present_addon bpy)"
  unfolding enable_present_addon_def
  by (intro confined_intros assms) simp_all

lemma confined_enable_print_addon:
  assumes "\<And>l m. Q (Log l m)" and "\<And>u. Q (Fetch u)" and "\<And>p kw r. Q (Invoke p kw r)"
  shows "confined E Q (enable_print_addon bpy)"
  unfolding enable_print_addon_def
  by (intro confined_intros confined_enable_present_addon confined_attempt_install assms)
     simp_all

lemma confined_main_addon:
  assumes "\<And>l m. Q (Log l m)" and "\<And>u. Q (Fetch u)" and "\<And>p kw r. Q (Invoke p kw r)"
  shows "confined E Q (main_addon bpy a)"
  unfolding main_addon_def
  by (intro confined_intros confined_enable_print_addon assms)

lemma main_addon_returns: "\<exists>use_addon w'. main_addon bpy a w = (Inr use_addon, w')"
proof -
  have "confined (\<lambda>_. False) (\<lambda>_. True) (main_addon bpy a)"
    by (rule confined_main_addon) simp_all
  then have "case fst (main_addon bpy a w) of Inl e \<Rightarrow> False | Inr x \<Rightarrow> True"
    by (auto simp: confined_def dest!: spec [of _ w])
  then show ?thesis
    by (cases "main_addon bpy a w") (auto split: sum.splits)
qed






subsection \<open>The exceptions of \<open>repair_stl\<close>\<close>




lemma safe_call_stl_import:
  "safe_call bpy ''wm.stl_import'' kw w =
     (case lookup_op bpy (host w) ''wm'' ''stl_import'' of
        None \<Rightarrow>
          (Inr False,
           emit [Invoke ''wm.stl_import'' kw Missing,
                 Log DEBUG ''Operator missing: bpy.ops.wm.stl_import''] w)
      | Some operator \<Rightarrow>
          (case operator kw (host w) of
             (None, h') \<Rightarrow> (Inr True, emit [Invoke ''wm.stl_import'' kw Completed] (w\<lparr>host := h'\<rparr>))
           | (Some e, h') \<Rightarrow>
               (Inr False,
                emit [Invoke ''wm.stl_import'' kw (Raised e),
                      Log DEBUG (''Operator wm.stl_import failed: '' @ str_exn e)]
                  (w\<lparr>host := h'\<rparr>))))"
  by (auto simp: safe_call_def rsplit1_def split: option.splits prod.splits)




subsection \<open>Exit codes\<close>

text \<open>
  Claim C1. The process ends with status 1 when \<open>bpy\<close> cannot be imported and when the
  input file does not exist. When the input exists and the output path is derived,
  \<open>main\<close> reaches \<open>repair_stl\<close> (the add-on step always returns), and the process ends
  with status 0 when \<open>repair_stl\<close> returns and with status 2 when it raises.
\<close>

theorem exit_codes:
  "exit_code (fst (cli (Inl e) a w)) = 1 \<and>
   (\<not> path_exists (host w) (input a) \<longrightarrow> exit_code (fst (cli (Inr bpy) a w)) = 1) \<and>
   (path_exists (host w) (input a) \<and> main_output a = Inr out \<longrightarrow>
      (\<exists>use_addon w1.
         main_addon bpy a w = (Inr use_addon, w1) \<and>
         exit_code (fst (cli (Inr bpy) a w)) =
           (case fst (repair_stl bpy (input a) out use_addon (main_suffix a) w1) of
              Inr final_file \<Rightarrow> 0
            | Inl e' \<Rightarrow> 2)))"
proof (intro conjI impI)
  show "exit_code (fst (cli (Inl e) a w)) = 1" by (simp add: cli_def)
next
  assume "\<not> path_exists (host w) (input a)"
  then show "exit_code (fst (cli (Inr bpy) a w)) = 1" by (simp add: cli_def main_def)
next
  assume h: "path_exists (host w) (input a) \<and> main_output a = Inr out"
  obtain use_addon w1 where ma: "main_addon bpy a w = (Inr use_addon, w1)"
    using main_addon_returns by blast
  have "exit_code (fst (cli (Inr bpy) a w)) =
           (case fst (repair_stl bpy (input a) out use_addon (main_suffix a) w1) of
              Inr final_file \<Rightarrow> 0
            | Inl e' \<Rightarrow> 2)"
    using h ma by (auto simp: cli_def main_def main_repair_def split: prod.splits sum.splits)
  with ma show "\<exists>use_addon w1.
         main_addon bpy a w = (Inr use_addon, w1) \<and>
         exit_code (fst (cli (Inr bpy) a w)) =
           (case fst (repair_stl bpy (input a) out use_addon (main_suffix a) w1) of
              Inr final_file \<Rightarrow> 0
            | Inl e' \<Rightarrow> 2)" by blast
qed


subsection \<open>Downloads\<close>

















section \<open>The properties on the example host\<close>

subsection \<open>Running the script\<close>

lemma blender_sel [simp]:
  "ops (blender i e) = blender_ops i e"
  "user_resource (blender i e) = (\<lambda>h. (Inr ''/cfg/addons'', h))"
  "addon_utils_check (blender i e) = (\<lambda>m h. (Inr [False, False], h))"
  "mkdtemp (blender i e) = (\<lambda>h. (Inr ''/tmp/td'', h\<lparr>fs := (fs h)(''/tmp/td'' \<mapsto> Dir)\<rparr>))"
  "rmtree (blender i e) = (\<lambda>d h. (None, h\<lparr>fs := (fs h)(d := None)\<rparr>))"
  "urlretrieve (blender i e) = (\<lambda>url p h. (Some (HostError ''network is unreachable''), h))"
  "zip_open (blender i e) = (\<lambda>p h. (Inl (HostError ''not a zip file''), h))"
  "makedirs (blender i e) = (\<lambda>p h. (None, h\<lparr>fs := (fs h)(rstrip_slash p \<mapsto> Dir)\<rparr>))"
  "write_file (blender i e) = (\<lambda>p c h. (None, h\<lparr>fs := (fs h)(p \<mapsto> File c)\<rparr>))"
  by (simp_all add: blender_def)

lemmas io_defs =
  ret_def raise_def then_do_def try_except_def emit_def logger_def os_call_def os_get_def
  get_name_def set_name_def set_location_def active_or_selected_def set_active_def
  lookup_op_def call_op_def safe_call_def rsplit1_def cleanup_def since_def

lemmas path_defs =
  path_str_def path_parent_def path_stem_def path_suffix_def path_name_def has_ext_def
  rfind_def join_with_def path_join_def parse_path_def str_split_def startswith_def
  with_stem_def with_name_def with_suffix_def lower_def lower_char_def os_path_join_def
  endswith_def

lemmas host_defs =
  completes_def fails_def stl_import_def stl_export_def stl_export_short_def addon_enable_def
  blender_ops_def part_stl_def disk_def disk_with_addon_def start_def fixed_stl_def
  cmdline_def basic_cmdline_def obj_cmdline_def installed_def empty_disk_def
  parse_args_defaults_def

lemmas script_defs =
  basic_mesh_repair_def repair_stl_load_def repair_stl_import_def repair_stl_repair_def
  repair_stl_export_def repair_stl_prepare_def repair_stl_def addon_url_def
  extract_member_def with_tempdir_def fetch_def download_addon_def os_path_isdir_def
  attempt_install_print_addon_def enable_present_addon_def enable_print_addon_def
  path_exists_def chosen_output_def main_output_def main_suffix_def main_addon_def
  main_repair_def main_def cli_def Let_def

lemmas run_defs = io_defs path_defs host_defs script_defs

lemma cmdline_paths:
  "path_exists (host start) (input cmdline)"
  "path_exists (host start) (input basic_cmdline)"
  "\<not> path_exists (host empty_disk) (input basic_cmdline)"
  "main_output cmdline = Inr fixed_stl"
  "main_output basic_cmdline = Inr fixed_stl"
  "main_suffix basic_cmdline = ''_fixed''"
  "main_suffix cmdline = ''_fixed''"
  by (simp_all add: run_defs)

lemma cmdline_input [simp]:
  "input cmdline = part_stl" "input basic_cmdline = part_stl"
  by (simp_all add: cmdline_def basic_cmdline_def parse_args_defaults_def)

lemma online_sel [simp]:
  "ops (online bpy) = ops bpy"
  "user_resource (online bpy) = user_resource bpy"
  "addon_utils_check (online bpy) = addon_utils_check bpy"
  "mkdtemp (online bpy) = mkdtemp bpy"
  "rmtree (online bpy) = rmtree bpy"
  "urlretrieve (online bpy) = (\<lambda>url p h. (None, h\<lparr>fs := (fs h)(p \<mapsto> File ''zip'')\<rparr>))"
  "zip_open (online bpy) = (\<lambda>p h. (case fs h p of
                                 Some (File c) \<Rightarrow> Inr archive
                               | _ \<Rightarrow> Inl (HostError ''no such file''), h))"
  "makedirs (online bpy) = makedirs bpy"
  "write_file (online bpy) = write_file bpy"
  by (simp_all add: online_def)

lemma collapse_run: "fst x = a \<Longrightarrow> x = (a, snd x)"
  by (cases x) simp

subsection \<open>A guarded operator call\<close>

text \<open>
  On the example host \<open>mesh.remove_doubles\<close> is missing, \<open>mesh.fill_holes\<close> completes, and
  an importer that raises is skipped like any other operator.
\<close>

theorem safe_call_never_raises_witness:
  "CHR ''.'' \<in> set ''mesh.remove_doubles'' \<and>
   safe_call (blender stl_import stl_export) ''mesh.remove_doubles'' [] start =
     (Inr False,
      emit [Invoke ''mesh.remove_doubles'' [] Missing,
            Log DEBUG ''Operator missing: bpy.ops.mesh.remove_doubles''] start) \<and>
   safe_call (blender stl_import stl_export) ''mesh.fill_holes'' [] start =
     (Inr True, emit [Invoke ''mesh.fill_holes'' [] Completed] start) \<and>
   safe_call (blender fails stl_export) ''wm.stl_import'' [] start =
     (Inr False,
      emit [Invoke ''wm.stl_import'' [] (Raised (RuntimeError ''operator failed'')),
            Log DEBUG ''Operator wm.stl_import failed: operator failed''] start)"
  using safe_call_never_raises [of "''mesh.remove_doubles''" "blender stl_import stl_export" "[]" start]
  by (simp add: run_defs)

subsection \<open>Exit codes\<close>

text \<open>
  \<open>stl-repair /in/part.stl --force-basic\<close>: without \<open>bpy\<close>, on a disk without the file,
  on the example host, and on a host whose importer raises.
\<close>

lemma basic_addon:
  "main_addon bpy basic_cmdline start = (Inr False, emit [Log INFO ''Repairing /in/part.stl''] start)"
  by (simp add: run_defs)

lemma basic_run:
  "fst (repair_stl (blender stl_import stl_export) part_stl fixed_stl False ''_fixed''
          (emit [Log INFO ''Repairing /in/part.stl''] start)) = Inr fixed_stl"
  by (simp add: run_defs) (simp add: str_split_acc.simps startswith_def)

lemma failing_run:
  "fst (repair_stl (blender fails stl_export) part_stl fixed_stl False ''_fixed''
          (emit [Log INFO ''Repairing /in/part.stl''] start))
     = Inl (RuntimeError ''Failed to import STL'')"
  by (simp add: run_defs)

theorem exit_codes_witness:
  "exit_code (fst (cli (Inl (HostError ''No module named bpy'')) basic_cmdline start)) = 1 \<and>
   \<not> path_exists (host empty_disk) (input basic_cmdline) \<and>
   exit_code (fst (cli (Inr (blender stl_import stl_export)) basic_cmdline empty_disk)) = 1 \<and>
   path_exists (host start) (input basic_cmdline) \<and>
   main_output basic_cmdline = Inr fixed_stl \<and>
   exit_code (fst (cli (Inr (blender stl_import stl_export)) basic_cmdline start)) = 0 \<and>
   exit_code (fst (cli (Inr (blender fails stl_export)) basic_cmdline start)) = 2"
proof -
  note t1 = exit_codes [of "HostError ''No module named bpy''" basic_cmdline start
      "blender stl_import stl_export" fixed_stl]
  note t2 = exit_codes [of "HostError ''No module named bpy''" basic_cmdline empty_disk
      "blender stl_import stl_export" fixed_stl]
  note t3 = exit_codes [of "HostError ''No module named bpy''" basic_cmdline start
      "blender fails stl_export" fixed_stl]
  from t1 have a: "exit_code (fst (cli (Inl (HostError ''No module named bpy'')) basic_cmdline start)) = 1"
    by blast
  from t2 cmdline_paths(3)
  have b: "exit_code (fst (cli (Inr (blender stl_import stl_export)) basic_cmdline empty_disk)) = 1"
    by blast
  from t1 cmdline_paths(2,5)
  have c: "exit_code (fst (cli (Inr (blender stl_import stl_export)) basic_cmdline start)) = 0"
    by (auto simp: basic_addon cmdline_paths(6) basic_run)
  from t3 cmdline_paths(2,5)
  have d: "exit_code (fst (cli (Inr (blender fails stl_export)) basic_cmdline start)) = 2"
    by (auto simp: basic_addon cmdline_paths(6) failing_run)
  from a b c d cmdline_paths(2,3,5) show ?thesis by blast
qed




text \<open>
  \<open>stl-repair /in/part.stl -s /x\<close>: the input exists and no operator is ever called, yet
  \<open>with_stem\<close> raises outside the \<open>try\<close> of \<open>main\<close> and the process ends with status 1.
\<close>

lemma invalid_suffix_exit:
  "main (blender stl_import stl_export) (cmdline\<lparr>suffix := ''/x''\<rparr>) start =
     (Uncaught (ValueError ''Invalid name''), start)"
  "exit_code (fst (main (blender stl_import stl_export) (cmdline\<lparr>suffix := ''/x''\<rparr>) start)) = 1"
  by (simp_all add: run_defs)

subsection \<open>The repair with the add-on, both operators missing\<close>

lemma print_addon_failing_input:
  "since start (snd (repair_stl_repair (blender stl_import stl_export) True 0 start)) =
     [Log INFO ''Running 3D Print add-on checks'',
      Invoke ''mesh.print3d_check_all'' [] Missing,
      Log DEBUG ''Operator missing: bpy.ops.mesh.print3d_check_all'',
      Invoke ''mesh.print3d_clean_non_manifold'' [] Missing,
      Log DEBUG ''Operator missing: bpy.ops.mesh.print3d_clean_non_manifold'']"
  by (simp add: run_defs)

subsection \<open>The export\<close>

text \<open>
  With an exporter that shortens the name of the object it writes, \<open>repair_stl\<close> returns
  \<open>/in/part.stl\<close>, not the derived \<open>/in/part_fixed.stl\<close>.
\<close>

theorem returned_path_counterexample:
  "fst (repair_stl (blender stl_import stl_export_short) part_stl fixed_stl False ''_fixed'' start)
     = Inr part_stl \<and>
   path_join (path_parent fixed_stl) (path_stem fixed_stl @ ''.stl'') = fixed_stl \<and>
   part_stl \<noteq> fixed_stl"
  by (simp add: run_defs) (simp add: str_split_acc.simps startswith_def)

text \<open>
  With the exporter of the example host the returned path is the derived one, and the
  object is left under the name it had before the export.
\<close>

lemma plain_run:
  "fst (repair_stl (blender stl_import stl_export) part_stl fixed_stl False ''_fixed'' start)
     = Inr fixed_stl"
  by (simp add: run_defs) (simp add: str_split_acc.simps startswith_def)

lemma plain_run_name:
  "objects (host (snd (repair_stl (blender stl_import stl_export) part_stl fixed_stl False
      ''_fixed'' start))) 0 = Some \<lparr>name = ''part_fixed'', location = [0, 0, 0]\<rparr>"
  by (simp add: run_defs)


theorem returned_path_follows_exported_name_witness:
  "repair_stl (blender stl_import stl_export) part_stl fixed_stl False ''_fixed'' start =
     (Inr fixed_stl,
      snd (repair_stl (blender stl_import stl_export) part_stl fixed_stl False ''_fixed'' start)) \<and>
   (\<exists>ob2 :: object. fixed_stl = path_join (path_parent fixed_stl) (name ob2 @ ''.stl''))"
proof -
  let ?r = "repair_stl (blender stl_import stl_export) part_stl fixed_stl False ''_fixed'' start"
  have r: "?r = (Inr fixed_stl, snd ?r)" by (rule collapse_run) (rule plain_run)
  from returned_path_follows_exported_name [OF r]
  have "\<exists>ob2 :: object. fixed_stl = path_join (path_parent fixed_stl) (name ob2 @ ''.stl'')"
    by clarify (rule exI)
  with r show ?thesis by (intro conjI)
qed


subsection \<open>The add-on\<close>






text \<open>
  Online, the install unpacks the add-on, and only the add-on, into the add-ons
  directory, removes the temporary directory and enables the add-on.
\<close>

lemma online_install:
  "fst (attempt_install_print_addon (online (blender stl_import stl_export)) start) = Inr True"
  "fs (host (snd (attempt_install_print_addon (online (blender stl_import stl_export)) start)))
     ''/cfg/addons/object_print3d_utils/__init__.py'' = Some (File ''import bpy'')"
  "fs (host (snd (attempt_install_print_addon (online (blender stl_import stl_export)) start)))
     ''/cfg/addons/object_print3d_utils'' = Some Dir"
  "fs (host (snd (attempt_install_print_addon (online (blender stl_import stl_export)) start)))
     ''/cfg/addons/README.md'' = None"
  "fs (host (snd (attempt_install_print_addon (online (blender stl_import stl_export)) start)))
     ''/tmp/td'' = None"
  by (simp_all add: run_defs archive_def str_split_acc.simps os_path_dirname_def
      rstrip_slash_def)

subsection \<open>The output path\<close>

text \<open>
  \<open>stl-repair /in/part.stl\<close> writes \<open>/in/part_fixed.stl\<close>;
  \<open>stl-repair /in/part.stl -o out.obj\<close> writes \<open>out.stl\<close>, whatever the suffix.
\<close>

theorem output_path_and_suffix_witness:
  "output cmdline = None \<and>
   chosen_output cmdline = Inr fixed_stl \<and>
   path_name fixed_stl = path_stem (input cmdline) @ ''_fixed'' @ path_suffix (input cmdline) \<and>
   path_parent fixed_stl = path_parent (input cmdline) \<and>
   chosen_output obj_cmdline = Inr \<lparr>absolute = False, parts = [''out.obj'']\<rparr> \<and>
   main_output obj_cmdline = Inr \<lparr>absolute = False, parts = [''out.stl'']\<rparr> \<and>
   path_suffix \<lparr>absolute = False, parts = [''out.stl'']\<rparr> = ''.stl'' \<and>
   main (blender stl_import stl_export) (obj_cmdline\<lparr>suffix := ''_v2''\<rparr>) start =
     main (blender stl_import stl_export) obj_cmdline start"
proof -
  let ?b = "blender stl_import stl_export"
  let ?obj = "\<lparr>absolute = False, parts = [''out.obj'']\<rparr>"
  let ?stl = "\<lparr>absolute = False, parts = [''out.stl'']\<rparr>"
  have o: "output cmdline = None" "suffix cmdline = ''_fixed''"
    by (simp_all add: cmdline_def parse_args_defaults_def)
  have c: "chosen_output cmdline = Inr fixed_stl"
    by (simp add: run_defs)
  have oo: "output obj_cmdline = Some ?obj" "output obj_cmdline \<noteq> None"
    by (simp_all add: obj_cmdline_def)
  have co: "chosen_output obj_cmdline = Inr ?obj" "main_output obj_cmdline = Inr ?stl"
    "lower (path_suffix ?obj) \<noteq> ''.stl''"
    by (simp_all add: run_defs)
  note t1 = output_path_and_suffix [of cmdline fixed_stl _ _ _ _ _ _ _ _ _ _ _ _]
  note t2 = output_path_and_suffix [of obj_cmdline ?obj _ _ ?stl start ?b _ _ "''_v2''" _ _ _ _]
  from t1 o c have n: "path_name fixed_stl =
      path_stem (input cmdline) @ ''_fixed'' @ path_suffix (input cmdline)"
    and p: "path_parent fixed_stl = path_parent (input cmdline)"
    by simp_all
  from t2 co have s: "path_suffix ?stl = ''.stl''"
    by simp
  from t2 oo(2) have m: "main ?b (obj_cmdline\<lparr>suffix := ''_v2''\<rparr>) start = main ?b obj_cmdline start"
    by blast
  from o(1) c n p co(1,2) s m show ?thesis by blast
qed

end
